theory Spec2Isabelle
  imports Main "HOL-Library.Word"
begin

unbundle bit_operations_syntax

section \<open>tojvm: a shallow embedding of the class-file loader and the interpreter\<close>

text \<open>
  The Go sources embedded here are \<^verbatim>\<open>vm.go\<close> (the interpreter, the class registry and
  \<^verbatim>\<open>argc\<close>) and the loader file (\<^verbatim>\<open>loader\<close>, \<^verbatim>\<open>ConstPool.Resolve\<close>, \<^verbatim>\<open>Load\<close>).
  Go bytes are \<open>8 word\<close>, \<^verbatim>\<open>uint16\<close>/\<^verbatim>\<open>uint32\<close>/\<^verbatim>\<open>uint64\<close> are words of that width
  (arithmetic wraps), Go strings are \<open>string\<close> (a list of 8-bit characters).
  A Go \<^verbatim>\<open>error\<close> return is the constructor \<open>Err\<close>, a run-time panic (index out of
  range, failed type assertion, nil dereference, write to a nil map, stack exhaustion) is
  the constructor \<open>Panic\<close>: it unwinds through every caller.
\<close>

type_synonym byte = "8 word"
type_synonym uint16 = "16 word"
type_synonym uint32 = "32 word"
type_synonym uint64 = "64 word"

subsection \<open>Descriptor argument counting (\<^verbatim>\<open>argc\<close>, vm.go)\<close>

text \<open>
  The loop \<^verbatim>\<open>for i := 1; i < len(desc); i++\<close> with its two variables \<^verbatim>\<open>inClass\<close> and
  \<^verbatim>\<open>n\<close>. The third argument is the part of the descriptor from index \<^verbatim>\<open>i\<close> on. Falling
  out of the loop returns 0. \<^verbatim>\<open>n\<close> is a Go \<^verbatim>\<open>int\<close> that is only incremented, at most
  once per character, so it is a \<open>nat\<close> here.
\<close>

fun argc_loop :: "bool \<Rightarrow> nat \<Rightarrow> string \<Rightarrow> nat" where
  "argc_loop inClass n [] = 0"
| "argc_loop inClass n (c # cs) =
     (if inClass then
        (if c = CHR '';'' then argc_loop False n cs else argc_loop True n cs)
      else if c = CHR '')'' then n
      else if c = CHR ''L'' then argc_loop True (n + 1) cs
      else argc_loop False (n + 1) cs)"

definition argc :: "string \<Rightarrow> nat" where
  "argc desc = argc_loop False 0 (drop 1 desc)"

subsection \<open>The binary reader (\<^verbatim>\<open>loader\<close>)\<close>

text \<open>
  \<^verbatim>\<open>fmt.Errorf("unsupported tag: %d", c.Tag)\<close> is \<open>UnsupportedTag\<close>; the two errors of
  \<^verbatim>\<open>io.ReadFull\<close> are \<open>EOF\<close> (nothing could be read) and \<open>ErrUnexpectedEOF\<close> (the input
  ended inside the requested block).
\<close>

datatype load_error = EOF | ErrUnexpectedEOF | UnsupportedTag byte

text \<open>
  \<^verbatim>\<open>type loader struct { r io.Reader; err error }\<close>. The reader is a finite byte stream
  (an opened file): \<open>reader\<close> (the field \<^verbatim>\<open>r\<close>) is the input not yet consumed.
\<close>

record loader =
  reader :: "byte list"
  err :: "load_error option"

text \<open>
  \<^verbatim>\<open>io.ReadFull(l.r, b)\<close> for a buffer of \<open>n\<close> zero bytes: the buffer after the call, the
  input left and the error. A request for no bytes reads nothing and succeeds. A short
  input is consumed whole and leaves the rest of the buffer zero.
\<close>

definition ReadFull :: "byte list \<Rightarrow> nat \<Rightarrow> byte list \<times> byte list \<times> load_error option" where
  "ReadFull inp n =
     (if n \<le> length inp then (take n inp, drop n inp, None)
      else if inp = [] then (replicate n 0, [], Some EOF)
      else (inp @ replicate (n - length inp) 0, [], Some ErrUnexpectedEOF))"

definition bytes :: "loader \<Rightarrow> nat \<Rightarrow> byte list \<times> loader" where
  "bytes l n =
     (let b = replicate n (0 :: byte) in
      if err l = None then
        (case ReadFull (reader l) n of (b', inp', e) \<Rightarrow> (b', l\<lparr>reader := inp', err := e\<rparr>))
      else (b, l))"

text \<open>\<^verbatim>\<open>binary.BigEndian.Uint16/Uint32/Uint64\<close> on a slice of exactly that many bytes.\<close>

definition be16 :: "byte list \<Rightarrow> uint16" where
  "be16 b = word_of_nat (foldl (\<lambda>a x. a * 256 + unat x) 0 (take 2 b))"

definition be32 :: "byte list \<Rightarrow> uint32" where
  "be32 b = word_of_nat (foldl (\<lambda>a x. a * 256 + unat x) 0 (take 4 b))"

definition be64 :: "byte list \<Rightarrow> uint64" where
  "be64 b = word_of_nat (foldl (\<lambda>a x. a * 256 + unat x) 0 (take 8 b))"

definition u1 :: "loader \<Rightarrow> byte \<times> loader" where
  "u1 l = (case bytes l 1 of (b, l') \<Rightarrow> (b ! 0, l'))"

definition u2 :: "loader \<Rightarrow> uint16 \<times> loader" where
  "u2 l = (case bytes l 2 of (b, l') \<Rightarrow> (be16 b, l'))"

definition u4 :: "loader \<Rightarrow> uint32 \<times> loader" where
  "u4 l = (case bytes l 4 of (b, l') \<Rightarrow> (be32 b, l'))"

definition u8 :: "loader \<Rightarrow> uint64 \<times> loader" where
  "u8 l = (case bytes l 8 of (b, l') \<Rightarrow> (be64 b, l'))"

text \<open>
  A read request and what it returned, to speak about sequences of reads on one loader.
\<close>

datatype read_op = U1 | U2 | U4 | U8 | Bytes nat

datatype read_val = V1 byte | V2 uint16 | V4 uint32 | V8 uint64 | VBytes "byte list"

fun do_read :: "loader \<Rightarrow> read_op \<Rightarrow> read_val \<times> loader" where
  "do_read l U1 = (case u1 l of (v, l') \<Rightarrow> (V1 v, l'))"
| "do_read l U2 = (case u2 l of (v, l') \<Rightarrow> (V2 v, l'))"
| "do_read l U4 = (case u4 l of (v, l') \<Rightarrow> (V4 v, l'))"
| "do_read l U8 = (case u8 l of (v, l') \<Rightarrow> (V8 v, l'))"
| "do_read l (Bytes n) = (case bytes l n of (v, l') \<Rightarrow> (VBytes v, l'))"

fun do_reads :: "loader \<Rightarrow> read_op list \<Rightarrow> read_val list \<times> loader" where
  "do_reads l [] = ([], l)"
| "do_reads l (q # qs) =
     (case do_read l q of (v, l') \<Rightarrow>
        (case do_reads l' qs of (vs, l'') \<Rightarrow> (v # vs, l'')))"

text \<open>The zero value of the size a request asks for.\<close>

fun zero_val :: "read_op \<Rightarrow> read_val" where
  "zero_val U1 = V1 0"
| "zero_val U2 = V2 0"
| "zero_val U4 = V4 0"
| "zero_val U8 = V8 0"
| "zero_val (Bytes n) = VBytes (replicate n 0)"

subsection \<open>Results\<close>

text \<open>
  The errors the interpreter creates with \<^verbatim>\<open>errors.New\<close>, and the run-time panics of Go
  that the code can raise. A stack exhausted by unbounded recursion is fatal in Go as
  well, and is counted with the panics.
\<close>

datatype error = MethodNotFound | ClassNotFound | MethodCodeNotFound

datatype panic = IndexOutOfRange | TypeAssertion | NilDereference | NilMapWrite | StackOverflow

subsection \<open>Class-file data (\<^verbatim>\<open>Const\<close>, \<^verbatim>\<open>Attribute\<close>, \<^verbatim>\<open>Field\<close>, \<^verbatim>\<open>Class\<close>)\<close>

text \<open>
  \<^verbatim>\<open>float32\<close> and \<^verbatim>\<open>float64\<close> values are carried as their IEEE-754 bit patterns
  (\<^verbatim>\<open>math.Float32frombits\<close> is then the identity).
\<close>

record Const =
  Tag :: byte
  NameIndex :: uint16
  ClassIndex :: uint16
  NameAndTypeIndex :: uint16
  StringIndex :: uint16
  DescIndex :: uint16
  Integer :: uint32
  Long :: uint64
  Float :: uint32
  Double :: uint64
  String :: string

definition TagClass :: byte where "TagClass = 7"
definition TagFieldRef :: byte where "TagFieldRef = 9"
definition TagMethodRef :: byte where "TagMethodRef = 10"
definition TagInterfaceMethodRef :: byte where "TagInterfaceMethodRef = 11"
definition TagString :: byte where "TagString = 8"
definition TagInteger :: byte where "TagInteger = 3"
definition TagFloat :: byte where "TagFloat = 4"
definition TagLong :: byte where "TagLong = 5"
definition TagDouble :: byte where "TagDouble = 6"
definition TagNameAndType :: byte where "TagNameAndType = 12"
definition TagUTF8 :: byte where "TagUTF8 = 1"

text \<open>\<^verbatim>\<open>Const{Tag: t}\<close>: every other field has its zero value.\<close>

definition Const_of_Tag :: "byte \<Rightarrow> Const" where
  "Const_of_Tag t = \<lparr>Tag = t, NameIndex = 0, ClassIndex = 0, NameAndTypeIndex = 0,
     StringIndex = 0, DescIndex = 0, Integer = 0, Long = 0, Float = 0, Double = 0,
     String = []\<rparr>"

type_synonym ConstPool = "Const list"

record Attribute =
  AName :: string
  Data :: "byte list"

record Field =
  FFlags :: uint16
  FName :: string
  Descriptor :: string
  FAttributes :: "Attribute list"

record Class =
  ConstPool :: ConstPool
  Name :: string
  Super :: string
  Flags :: uint16
  Interfaces :: "string list"
  Fields :: "Field list"
  Methods :: "Field list"
  Attributes :: "Attribute list"

subsection \<open>\<^verbatim>\<open>ConstPool.Resolve\<close>\<close>

text \<open>
  \<^verbatim>\<open>cp[index-1]\<close> subtracts in \<^verbatim>\<open>uint16\<close> (index 0 wraps to 65535) and panics when the
  result is not below \<^verbatim>\<open>len(cp)\<close>. The recursion follows \<^verbatim>\<open>StringIndex\<close> or
  \<^verbatim>\<open>NameIndex\<close>. A chain that has looked at more entries than the pool holds has met one
  entry twice and never ends: Go then exhausts its stack. The first argument counts the
  lookups still allowed, and \<open>Resolve\<close> starts it at one more than the pool's length.
\<close>

fun Resolve_from :: "nat \<Rightarrow> ConstPool \<Rightarrow> uint16 \<Rightarrow> panic + string" where
  "Resolve_from 0 cp index = Inl StackOverflow"
| "Resolve_from (Suc k) cp index =
     (let i = unat (index - 1) in
      if length cp \<le> i then Inl IndexOutOfRange
      else if Tag (cp ! i) = TagUTF8 then Inr (String (cp ! i))
      else if Tag (cp ! i) = TagString then Resolve_from k cp (StringIndex (cp ! i))
      else if Tag (cp ! i) = TagClass \<or> Tag (cp ! i) = TagNameAndType
        then Resolve_from k cp (NameIndex (cp ! i))
      else Inr [])"

definition Resolve :: "ConstPool \<Rightarrow> uint16 \<Rightarrow> panic + string" where
  "Resolve cp index = Resolve_from (Suc (length cp)) cp index"

subsection \<open>The class-file parser (\<^verbatim>\<open>cpinfo\<close>, \<^verbatim>\<open>interfaces\<close>, \<^verbatim>\<open>fields\<close>, \<^verbatim>\<open>attrs\<close>, \<^verbatim>\<open>Load\<close>)\<close>

text \<open>\<^verbatim>\<open>string(b)\<close>: the bytes of \<open>b\<close> as a Go string.\<close>

definition string_of_bytes :: "byte list \<Rightarrow> string" where
  "string_of_bytes b = map (\<lambda>x. char_of (unat x)) b"

text \<open>One pass of the body of the loop of \<^verbatim>\<open>cpinfo\<close> up to the \<^verbatim>\<open>switch\<close>'s end.\<close>

definition read_const :: "loader \<Rightarrow> Const \<times> loader" where
  "read_const l =
     (case u1 l of (t, l1) \<Rightarrow>
        let c = Const_of_Tag t in
        if t = TagClass then
          (case u2 l1 of (v, l2) \<Rightarrow> (c\<lparr>NameIndex := v\<rparr>, l2))
        else if t = TagFieldRef \<or> t = TagMethodRef \<or> t = TagInterfaceMethodRef then
          (case u2 l1 of (v, l2) \<Rightarrow>
             (case u2 l2 of (w, l3) \<Rightarrow> (c\<lparr>ClassIndex := v, NameAndTypeIndex := w\<rparr>, l3)))
        else if t = TagString then
          (case u2 l1 of (v, l2) \<Rightarrow> (c\<lparr>StringIndex := v\<rparr>, l2))
        else if t = TagInteger then
          (case u4 l1 of (v, l2) \<Rightarrow> (c\<lparr>Integer := v\<rparr>, l2))
        else if t = TagFloat then
          (case u4 l1 of (v, l2) \<Rightarrow> (c\<lparr>Float := v\<rparr>, l2))
        else if t = TagLong then
          (case u8 l1 of (v, l2) \<Rightarrow> (c\<lparr>Long := v\<rparr>, l2))
        else if t = TagDouble then
          (case u8 l1 of (v, l2) \<Rightarrow> (c\<lparr>Double := v\<rparr>, l2))
        else if t = TagNameAndType then
          (case u2 l1 of (v, l2) \<Rightarrow>
             (case u2 l2 of (w, l3) \<Rightarrow> (c\<lparr>NameIndex := v, DescIndex := w\<rparr>, l3)))
        else if t = TagUTF8 then
          (case u2 l1 of (n, l2) \<Rightarrow>
             (case bytes l2 (unat n) of (b, l3) \<Rightarrow> (c\<lparr>String := string_of_bytes b\<rparr>, l3)))
        else (c, l1\<lparr>err := Some (UnsupportedTag t)\<rparr>))"

text \<open>
  What decreases in the loop of \<^verbatim>\<open>cpinfo\<close>: while no error is latched every pass consumes
  at least the tag byte; once an error is latched every tag read is 0, the counter
  advances by one and cannot wrap before it reaches the count.
\<close>

definition cpinfo_left :: "loader \<Rightarrow> nat" where
  "cpinfo_left l = (if err l = None then Suc (length (reader l)) else 0)"

lemma bytes_left: "bytes l n = (b, l') \<Longrightarrow> cpinfo_left l' \<le> cpinfo_left l"
  by (auto simp: bytes_def cpinfo_left_def ReadFull_def Let_def split: if_splits prod.splits)

lemma bytes_left_strict:
  "bytes l n = (b, l') \<Longrightarrow> err l = None \<Longrightarrow> 0 < n \<Longrightarrow> cpinfo_left l' < cpinfo_left l"
  by (auto simp: bytes_def cpinfo_left_def ReadFull_def Let_def split: if_splits prod.splits)

lemma u1_left: "u1 l = (t, l') \<Longrightarrow> err l = None \<Longrightarrow> cpinfo_left l' < cpinfo_left l"
  by (auto simp: u1_def split: prod.splits dest: bytes_left_strict)

lemma u1_latched: "u1 l = (t, l') \<Longrightarrow> err l \<noteq> None \<Longrightarrow> t = 0 \<and> l' = l"
  by (auto simp: u1_def bytes_def split: prod.splits)

lemma u2_left: "u2 l = (t, l') \<Longrightarrow> cpinfo_left l' \<le> cpinfo_left l"
  by (auto simp: u2_def split: prod.splits dest: bytes_left)

lemma u4_left: "u4 l = (t, l') \<Longrightarrow> cpinfo_left l' \<le> cpinfo_left l"
  by (auto simp: u4_def split: prod.splits dest: bytes_left)

lemma u8_left: "u8 l = (t, l') \<Longrightarrow> cpinfo_left l' \<le> cpinfo_left l"
  by (auto simp: u8_def split: prod.splits dest: bytes_left)

lemmas tag_defs = TagClass_def TagFieldRef_def TagMethodRef_def TagInterfaceMethodRef_def
  TagString_def TagInteger_def TagFloat_def TagLong_def TagDouble_def TagNameAndType_def
  TagUTF8_def

lemma read_const_left_None:
  assumes "read_const l = (c, l')" "err l = None"
  shows "cpinfo_left l' < cpinfo_left l"
proof -
  obtain t l1 where t: "u1 l = (t, l1)" by (cases "u1 l")
  have l1: "cpinfo_left l1 < cpinfo_left l" using u1_left[OF t assms(2)] .
  have "cpinfo_left l' \<le> cpinfo_left l1"
    using assms(1) t
    by (auto simp: read_const_def Let_def cpinfo_left_def split: if_splits prod.splits
        dest!: u2_left u4_left u8_left bytes_left)
  with l1 show ?thesis by simp
qed

lemma read_const_latched:
  assumes "read_const l = (c, l')" "err l \<noteq> None"
  shows "Tag c = 0 \<and> err l' \<noteq> None"
proof -
  from assms(2) have "u1 l = (0, l)" by (cases "u1 l") (auto dest: u1_latched)
  with assms(1) show ?thesis
    by (auto simp: read_const_def Let_def tag_defs Const_of_Tag_def)
qed

text \<open>
  The loop of \<^verbatim>\<open>cpinfo\<close>: \<^verbatim>\<open>for i := uint16(1); i < constPoolCount; i++\<close>, with the second
  \<^verbatim>\<open>i++\<close> and the placeholder entry after a Long or a Double. The counter is a
  \<^verbatim>\<open>uint16\<close> and wraps.
\<close>

function cpinfo_loop :: "uint16 \<Rightarrow> uint16 \<Rightarrow> loader \<Rightarrow> ConstPool \<Rightarrow> ConstPool \<times> loader" where
  "cpinfo_loop i constPoolCount l constPool =
     (if i < constPoolCount then
        (case read_const l of (c, l') \<Rightarrow>
           if Tag c = TagDouble \<or> Tag c = TagLong
           then cpinfo_loop (i + 1 + 1) constPoolCount l'
                  (constPool @ [c] @ [Const_of_Tag TagInteger])
           else cpinfo_loop (i + 1) constPoolCount l' (constPool @ [c]))
      else (constPool, l))"
  by pat_completeness auto
termination
proof (relation "(\<lambda>(i, n, l, cp). cpinfo_left l) <*mlex*> measure (\<lambda>(i, n, l, cp). unat n - unat i)",
    goal_cases)
  case 1
  show ?case by (simp add: wf_mlex)
next
  case (2 i n l cp c l')
  then have rc: "read_const l = (c, l')" by simp
  have "err l = None"
  proof (rule ccontr)
    assume "err l \<noteq> None"
    from read_const_latched[OF rc this] 2(3) show False by (auto simp: tag_defs)
  qed
  from read_const_left_None[OF rc this] show ?case by (simp add: mlex_less)
next
  case (3 i n l cp c l')
  then have rc: "read_const l = (c, l')" by simp
  show ?case
  proof (cases "err l = None")
    case True
    from read_const_left_None[OF rc this] show ?thesis by (simp add: mlex_less)
  next
    case False
    from read_const_latched[OF rc this] have e: "err l' \<noteq> None" by simp
    have le: "cpinfo_left l' \<le> cpinfo_left l" using e False by (simp add: cpinfo_left_def)
    have lt: "unat i < unat n" using 3(1) by (simp add: word_less_nat_alt)
    have "unat n < 2 ^ 16" using unsigned_less[of n] by simp
    with lt have "unat (i + 1) = unat i + 1"
      by (simp add: unat_word_ariths)
    with lt have "unat n - unat (i + 1) < unat n - unat i" by simp
    with le show ?thesis by (simp add: mlex_leq)
  qed
qed

declare cpinfo_loop.simps [simp del]

definition cpinfo :: "loader \<Rightarrow> ConstPool \<times> loader" where
  "cpinfo l = (case u2 l of (constPoolCount, l1) \<Rightarrow> cpinfo_loop 1 constPoolCount l1 [])"

text \<open>
  The three counted loops \<^verbatim>\<open>for i := uint16(0); i < count; i++\<close> run \<open>count\<close> times;
  the first argument is the number of passes left. \<^verbatim>\<open>Resolve\<close> may panic inside them.
\<close>

fun interfaces_loop ::
  "nat \<Rightarrow> ConstPool \<Rightarrow> loader \<Rightarrow> string list \<Rightarrow> panic + (string list \<times> loader)" where
  "interfaces_loop 0 cp l interfaces = Inr (interfaces, l)"
| "interfaces_loop (Suc k) cp l interfaces =
     (case u2 l of (idx, l1) \<Rightarrow>
        (case Resolve cp idx of
           Inl p \<Rightarrow> Inl p
         | Inr s \<Rightarrow> interfaces_loop k cp l1 (interfaces @ [s])))"

definition interfaces :: "ConstPool \<Rightarrow> loader \<Rightarrow> panic + (string list \<times> loader)" where
  "interfaces cp l =
     (case u2 l of (interfaceCount, l1) \<Rightarrow> interfaces_loop (unat interfaceCount) cp l1 [])"

fun attrs_loop ::
  "nat \<Rightarrow> ConstPool \<Rightarrow> loader \<Rightarrow> Attribute list \<Rightarrow> panic + (Attribute list \<times> loader)" where
  "attrs_loop 0 cp l attrs = Inr (attrs, l)"
| "attrs_loop (Suc k) cp l attrs =
     (case u2 l of (idx, l1) \<Rightarrow>
        (case Resolve cp idx of
           Inl p \<Rightarrow> Inl p
         | Inr name \<Rightarrow>
             (case u4 l1 of (n, l2) \<Rightarrow>
                (case bytes l2 (unat n) of (d, l3) \<Rightarrow>
                   attrs_loop k cp l3 (attrs @ [\<lparr>AName = name, Data = d\<rparr>])))))"

definition attrs :: "ConstPool \<Rightarrow> loader \<Rightarrow> panic + (Attribute list \<times> loader)" where
  "attrs cp l =
     (case u2 l of (attributesCount, l1) \<Rightarrow> attrs_loop (unat attributesCount) cp l1 [])"

fun fields_loop ::
  "nat \<Rightarrow> ConstPool \<Rightarrow> loader \<Rightarrow> Field list \<Rightarrow> panic + (Field list \<times> loader)" where
  "fields_loop 0 cp l fs = Inr (fs, l)"
| "fields_loop (Suc k) cp l fs =
     (case u2 l of (flags, l1) \<Rightarrow>
        (case u2 l1 of (ni, l2) \<Rightarrow>
           (case Resolve cp ni of
              Inl p \<Rightarrow> Inl p
            | Inr name \<Rightarrow>
                (case u2 l2 of (di, l3) \<Rightarrow>
                   (case Resolve cp di of
                      Inl p \<Rightarrow> Inl p
                    | Inr desc \<Rightarrow>
                        (case attrs cp l3 of
                           Inl p \<Rightarrow> Inl p
                         | Inr (as, l4) \<Rightarrow>
                             fields_loop k cp l4
                               (fs @ [\<lparr>FFlags = flags, FName = name, Descriptor = desc,
                                           FAttributes = as\<rparr>])))))))"

text \<open>\<^verbatim>\<open>loader.fields\<close> (the name \<open>fields\<close> is taken by the record package).\<close>

definition loader_fields :: "ConstPool \<Rightarrow> loader \<Rightarrow> panic + (Field list \<times> loader)" where
  "loader_fields cp l =
     (case u2 l of (fieldsCount, l1) \<Rightarrow> fields_loop (unat fieldsCount) cp l1 [])"

text \<open>
  \<^verbatim>\<open>Load\<close> returns the class and the latched error, unless \<^verbatim>\<open>Resolve\<close> panicked on the
  way.
\<close>

definition Load :: "byte list \<Rightarrow> panic + (Class \<times> load_error option)" where
  "Load inp =
     (case u8 \<lparr>reader = inp, err = None\<rparr> of (magic, l1) \<Rightarrow>
      case cpinfo l1 of (cp, l2) \<Rightarrow>
      case u2 l2 of (flags, l3) \<Rightarrow>
      case u2 l3 of (this_index, l4) \<Rightarrow>
      case Resolve cp this_index of Inl p \<Rightarrow> Inl p | Inr name \<Rightarrow>
      case u2 l4 of (super_index, l5) \<Rightarrow>
      case Resolve cp super_index of Inl p \<Rightarrow> Inl p | Inr super \<Rightarrow>
      case interfaces cp l5 of Inl p \<Rightarrow> Inl p | Inr (ifs, l6) \<Rightarrow>
      case loader_fields cp l6 of Inl p \<Rightarrow> Inl p | Inr (flds, l7) \<Rightarrow>
      case loader_fields cp l7 of Inl p \<Rightarrow> Inl p | Inr (ms, l8) \<Rightarrow>
      case attrs cp l8 of Inl p \<Rightarrow> Inl p | Inr (as, l9) \<Rightarrow>
        Inr (\<lparr>ConstPool = cp, Name = name, Super = super, Flags = flags, Interfaces = ifs,
              Fields = flds, Methods = ms, Attributes = as\<rparr>, err l9))"

subsection \<open>Run-time data (\<^verbatim>\<open>Value\<close>, \<^verbatim>\<open>Object\<close>, \<^verbatim>\<open>Frame\<close>, \<^verbatim>\<open>VM\<close>)\<close>

text \<open>
  \<^verbatim>\<open>type Value interface{}\<close> with the dynamic types the interpreter creates or inspects:
  nil, \<^verbatim>\<open>int8\<close> (pushed by BIPUSH), \<^verbatim>\<open>int16\<close> (SIPUSH), \<^verbatim>\<open>int32\<close>, \<^verbatim>\<open>int64\<close>,
  \<^verbatim>\<open>float32\<close>, \<^verbatim>\<open>float64\<close>, \<^verbatim>\<open>string\<close> (what \<^verbatim>\<open>Const\<close> returns), \<^verbatim>\<open>*Object\<close> and
  \<^verbatim>\<open>[]Value\<close>. A \<^verbatim>\<open>*Object\<close> is an address in the store \<open>Heap\<close>; an address outside the
  store stands for a nil pointer. The code never writes to a \<^verbatim>\<open>[]Value\<close>, so an array is
  its list of elements.
\<close>

datatype Value =
    VNil
  | VInt8 "8 word"
  | VInt16 "16 word"
  | VInt32 "32 word"
  | VInt64 "64 word"
  | VFloat32 uint32
  | VFloat64 uint64
  | VString string
  | VObject nat
  | VArray "Value list"

text \<open>
  \<^verbatim>\<open>Object\<close> embeds \<^verbatim>\<open>Class\<close> (field \<open>ObjClass\<close>); its map \<^verbatim>\<open>Fields\<close> is \<open>ObjFields\<close>, and
  \<open>None\<close> is the nil map of an object built without one (the root class object of
  \<^verbatim>\<open>New\<close>): reading it yields nil, writing to it panics.
\<close>

record Object =
  ObjClass :: Class
  ClassInstance :: "nat option"
  SuperInstance :: "nat option"
  ObjFields :: "(string \<rightharpoonup> Value) option"

record Frame =
  FrameClass :: nat
  IP :: uint32
  Code :: "byte list"
  Locals :: "Value list"
  Stack :: "Value list"

text \<open>
  The \<^verbatim>\<open>VM\<close> struct, together with the store of all objects reachable from it. A native
  \<^verbatim>\<open>func(...Value) Value\<close> is a function on the argument list.
\<close>

record VM =
  ClassPath :: "string list"
  Classes :: "nat list"
  Native :: "string \<rightharpoonup> (Value list \<Rightarrow> Value)"
  Heap :: "Object list"

text \<open>
  What the interpreter takes from outside the repository: the file system
  (\<open>open_class path name\<close> is the content of the file that
  \<^verbatim>\<open>os.Open(filepath.Join(path, name+".class"))\<close> opens, \<open>None\<close> when it cannot be opened)
  and Go's floating-point arithmetic on bit patterns.
\<close>

record Host =
  open_class :: "string \<Rightarrow> string \<Rightarrow> byte list option"
  add32 :: "uint32 \<Rightarrow> uint32 \<Rightarrow> uint32"
  sub32 :: "uint32 \<Rightarrow> uint32 \<Rightarrow> uint32"
  mul32 :: "uint32 \<Rightarrow> uint32 \<Rightarrow> uint32"
  add64 :: "uint64 \<Rightarrow> uint64 \<Rightarrow> uint64"
  sub64 :: "uint64 \<Rightarrow> uint64 \<Rightarrow> uint64"
  mul64 :: "uint64 \<Rightarrow> uint64 \<Rightarrow> uint64"

datatype 'a result = Ok 'a | Err error | Panic panic | OutOfFuel

text \<open>A failed result at another type (never applied to \<open>Ok\<close>).\<close>

fun fail_of :: "'a result \<Rightarrow> 'b result" where
  "fail_of (Ok x) = OutOfFuel"
| "fail_of (Err e) = Err e"
| "fail_of (Panic p) = Panic p"
| "fail_of OutOfFuel = OutOfFuel"

definition obj_at :: "VM \<Rightarrow> nat \<Rightarrow> panic + Object" where
  "obj_at vm a = (if a < length (Heap vm) then Inr (Heap vm ! a) else Inl NilDereference)"

subsection \<open>\<^verbatim>\<open>Frame.push\<close>, \<^verbatim>\<open>Frame.pop\<close>, \<^verbatim>\<open>Object\<close> methods, \<^verbatim>\<open>New\<close>\<close>

text \<open>The top of the operand stack is the last element, as in the Go slice.\<close>

definition push :: "Frame \<Rightarrow> Value \<Rightarrow> Frame" where
  "push f v = f\<lparr>Stack := Stack f @ [v]\<rparr>"

definition pop :: "Frame \<Rightarrow> panic + (Value \<times> Frame)" where
  "pop f =
     (if Stack f = [] then Inl IndexOutOfRange
      else Inr (last (Stack f), f\<lparr>Stack := butlast (Stack f)\<rparr>))"

text \<open>\<^verbatim>\<open>(o *Object) New()\<close> for the object at address \<open>a\<close>: the new store and address.\<close>

definition Object_New :: "VM \<Rightarrow> nat \<Rightarrow> panic + (VM \<times> nat)" where
  "Object_New vm a =
     (case obj_at vm a of
        Inl p \<Rightarrow> Inl p
      | Inr ob \<Rightarrow>
          Inr (vm\<lparr>Heap := Heap vm @
                 [\<lparr>ObjClass = ObjClass ob, ClassInstance = Some a, SuperInstance = None,
                   ObjFields = Some Map.empty\<rparr>]\<rparr>,
               length (Heap vm)))"

definition Object_Const :: "Object \<Rightarrow> uint16 \<Rightarrow> panic + Value" where
  "Object_Const ob index =
     (case Resolve (ConstPool (ObjClass ob)) index of Inl p \<Rightarrow> Inl p | Inr s \<Rightarrow> Inr (VString s))"

definition Object_Field :: "Object \<Rightarrow> string \<Rightarrow> Value" where
  "Object_Field ob name =
     (case ObjFields ob of
        None \<Rightarrow> VNil
      | Some m \<Rightarrow> (case m name of None \<Rightarrow> VNil | Some v \<Rightarrow> v))"

definition SetField :: "VM \<Rightarrow> nat \<Rightarrow> string \<Rightarrow> Value \<Rightarrow> panic + VM" where
  "SetField vm a name v =
     (case obj_at vm a of
        Inl p \<Rightarrow> Inl p
      | Inr ob \<Rightarrow>
          (case ObjFields ob of
             None \<Rightarrow> Inl NilMapWrite
           | Some m \<Rightarrow> Inr (vm\<lparr>Heap := (Heap vm)[a := ob\<lparr>ObjFields := Some (m(name \<mapsto> v))\<rparr>]\<rparr>)))"

definition Method :: "Object \<Rightarrow> string \<Rightarrow> string \<Rightarrow> error + Field" where
  "Method ob name desc =
     (case find (\<lambda>m. FName m = name \<and> (desc = [] \<or> desc = Descriptor m))
             (Methods (ObjClass ob)) of
        Some m \<Rightarrow> Inr m
      | None \<Rightarrow> Inl MethodNotFound)"

definition New :: "string list \<Rightarrow> VM" where
  "New classPath =
     \<lparr>ClassPath = classPath,
      Classes = [0],
      Native = [''java/lang/Object.<init>'' \<mapsto> (\<lambda>args. VNil)],
      Heap = [\<lparr>ObjClass = \<lparr>ConstPool = [], Name = ''java/lang/Object'', Super = [], Flags = 0,
                           Interfaces = [], Fields = [],
                           Methods = [\<lparr>FFlags = 0, FName = ''<init>'', Descriptor = ''()V'',
                                       FAttributes = []\<rparr>],
                           Attributes = []\<rparr>,
               ClassInstance = None, SuperInstance = None, ObjFields = None\<rparr>]\<rparr>"

definition RegisterNative ::
  "VM \<Rightarrow> string \<Rightarrow> string \<Rightarrow> string \<Rightarrow> (Value list \<Rightarrow> Value) \<Rightarrow> VM" where
  "RegisterNative vm class method desc f = vm\<lparr>Native := (Native vm)(class @ ''.'' @ method \<mapsto> f)\<rparr>"

subsection \<open>The opcodes that touch only the frame\<close>

text \<open>Type assertions \<^verbatim>\<open>v.(T)\<close>.\<close>

fun as_int32 :: "Value \<Rightarrow> uint32 option" where
  "as_int32 (VInt32 x) = Some x"
| "as_int32 v = None"

fun as_int64 :: "Value \<Rightarrow> uint64 option" where
  "as_int64 (VInt64 x) = Some x"
| "as_int64 v = None"

fun as_float32 :: "Value \<Rightarrow> uint32 option" where
  "as_float32 (VFloat32 x) = Some x"
| "as_float32 v = None"

fun as_float64 :: "Value \<Rightarrow> uint64 option" where
  "as_float64 (VFloat64 x) = Some x"
| "as_float64 v = None"

fun as_Object :: "Value \<Rightarrow> nat option" where
  "as_Object (VObject a) = Some a"
| "as_Object v = None"

fun as_array :: "Value \<Rightarrow> Value list option" where
  "as_array (VArray xs) = Some xs"
| "as_array v = None"

text \<open>\<^verbatim>\<open>frame.pop().(T)\<close>: the pop can panic, then the assertion.\<close>

definition pop_as :: "(Value \<Rightarrow> 'a option) \<Rightarrow> Frame \<Rightarrow> panic + ('a \<times> Frame)" where
  "pop_as as f =
     (case pop f of
        Inl p \<Rightarrow> Inl p
      | Inr (v, f') \<Rightarrow> (case as v of None \<Rightarrow> Inl TypeAssertion | Some x \<Rightarrow> Inr (x, f')))"

text \<open>What one pass of the \<^verbatim>\<open>switch\<close> does, before the trailing \<^verbatim>\<open>frame.IP++\<close>.\<close>

datatype step = Next Frame | Returned Value | Crash panic

text \<open>
  \<^verbatim>\<open>frame.push(frame.pop().(T) op frame.pop().(T))\<close> and
  \<^verbatim>\<open>a, b := frame.pop().(T), frame.pop().(T); frame.push(b op a)\<close>: \<open>g\<close> receives the value
  popped first and then the value popped second.
\<close>

definition binop ::
  "(Value \<Rightarrow> 'a option) \<Rightarrow> ('a \<Rightarrow> Value) \<Rightarrow> ('a \<Rightarrow> 'a \<Rightarrow> 'a) \<Rightarrow> Frame \<Rightarrow> step" where
  "binop as mk g f =
     (case pop_as as f of
        Inl p \<Rightarrow> Crash p
      | Inr (x, f1) \<Rightarrow>
          (case pop_as as f1 of
             Inl p \<Rightarrow> Crash p
           | Inr (y, f2) \<Rightarrow> Next (push f2 (mk (g x y)))))"

text \<open>
  \<^verbatim>\<open>frame.Code[frame.IP+1]\<close> and \<^verbatim>\<open>binary.BigEndian.Uint16(frame.Code[frame.IP+1:])\<close>;
  \<^verbatim>\<open>frame.IP+1\<close> is computed in \<^verbatim>\<open>uint32\<close>. \<open>None\<close> is the index-out-of-range panic.
\<close>

definition code_u1 :: "Frame \<Rightarrow> byte option" where
  "code_u1 f =
     (let i = unat (IP f + 1) in if i < length (Code f) then Some (Code f ! i) else None)"

definition code_u2 :: "Frame \<Rightarrow> uint16 option" where
  "code_u2 f =
     (let i = unat (IP f + 1) in
      if i + 2 \<le> length (Code f) then Some (be16 (drop i (Code f))) else None)"

text \<open>\<^verbatim>\<open>frame.push(frame.Locals[i])\<close>.\<close>

definition load_local :: "Frame \<Rightarrow> nat \<Rightarrow> step" where
  "load_local f i =
     (if i < length (Locals f) then Next (push f (Locals f ! i)) else Crash IndexOutOfRange)"

text \<open>
  The \<^verbatim>\<open>switch op\<close> of \<^verbatim>\<open>exec\<close> for every opcode except 0xB2..0xB8 and 0xBB (they
  resolve a class and come below), in the order of the source. A \<^verbatim>\<open>case\<close> with an empty
  body and an opcode with no \<^verbatim>\<open>case\<close> at all (the \<^verbatim>\<open>switch\<close> has no \<^verbatim>\<open>default\<close>) both leave
  the frame as it is: the last branch.
\<close>

definition exec_op :: "Host \<Rightarrow> VM \<Rightarrow> byte \<Rightarrow> Frame \<Rightarrow> step" where
  "exec_op h vm op f =
     (if op = 0x00 then Next f
      else if op = 0x01 then Next (push f VNil)
      else if op = 0x02 then Next (push f (VInt32 (- 1)))
      else if op = 0x03 then Next (push f (VInt32 0))
      else if op = 0x04 then Next (push f (VInt32 1))
      else if op = 0x05 then Next (push f (VInt32 2))
      else if op = 0x06 then Next (push f (VInt32 3))
      else if op = 0x07 then Next (push f (VInt32 4))
      else if op = 0x08 then Next (push f (VInt32 5))
      else if op = 0x09 then Next (push f (VInt64 5))
      else if op = 0x0A then Next (push f (VInt64 1))
      else if op = 0x0B then Next (push f (VFloat32 0))
      else if op = 0x0C then Next (push f (VFloat32 0x3F800000))
      else if op = 0x0D then Next (push f (VFloat32 0x40000000))
      else if op = 0x0E then Next (push f (VFloat64 0))
      else if op = 0x0F then Next (push f (VFloat64 0x3FF0000000000000))
      else if op = 0x10 then
        (case code_u1 f of
           None \<Rightarrow> Crash IndexOutOfRange
         | Some b \<Rightarrow> Next ((push f (VInt8 b))\<lparr>IP := IP f + 1\<rparr>))
      else if op = 0x11 then
        (case code_u2 f of
           None \<Rightarrow> Crash IndexOutOfRange
         | Some w \<Rightarrow> Next ((push f (VInt16 w))\<lparr>IP := IP f + 2\<rparr>))
      else if op = 0x12 \<or> op = 0x13 \<or> op = 0x14 then
        (case code_u1 f of
           None \<Rightarrow> Crash IndexOutOfRange
         | Some b \<Rightarrow>
             (case obj_at vm (FrameClass f) of
                Inl p \<Rightarrow> Crash p
              | Inr ob \<Rightarrow>
                  (case Object_Const ob (ucast b) of
                     Inl p \<Rightarrow> Crash p
                   | Inr v \<Rightarrow> Next ((push f v)\<lparr>IP := IP f + 1\<rparr>))))
      else if op \<in> {0x15, 0x16, 0x17, 0x18, 0x19} then
        (case code_u1 f of
           None \<Rightarrow> Crash IndexOutOfRange
         | Some b \<Rightarrow>
             (case load_local f (unat b) of
                Next f' \<Rightarrow> Next (f'\<lparr>IP := IP f + 1\<rparr>)
              | other \<Rightarrow> other))
      else if op \<in> {0x1A, 0x1E, 0x22, 0x26, 0x2A} then load_local f 0
      else if op \<in> {0x1B, 0x1F, 0x23, 0x27, 0x2B} then load_local f 1
      else if op \<in> {0x1C, 0x20, 0x24, 0x28, 0x2C} then load_local f 2
      else if op \<in> {0x1D, 0x21, 0x25, 0x29, 0x2D} then load_local f 3
      else if op \<in> {0x2E, 0x2F, 0x30, 0x31, 0x32, 0x33, 0x34, 0x35} then
        (case pop_as as_array f of
           Inl p \<Rightarrow> Crash p
         | Inr (a, f1) \<Rightarrow>
             (case pop_as as_int32 f1 of
                Inl p \<Rightarrow> Crash p
              | Inr (i, f2) \<Rightarrow>
                  if 0 \<le> sint i \<and> nat (sint i) < length a
                  then Next (push f2 (a ! nat (sint i)))
                  else Crash IndexOutOfRange))
      else if op = 0x59 then
        (case pop f of
           Inl p \<Rightarrow> Crash p
         | Inr (v, f1) \<Rightarrow> Next (push (push f1 v) v))
      else if op = 0x5F then
        (case pop f of
           Inl p \<Rightarrow> Crash p
         | Inr (a, f1) \<Rightarrow>
             (case pop f1 of
                Inl p \<Rightarrow> Crash p
              | Inr (b, f2) \<Rightarrow> Next (push (push f2 a) b)))
      else if op = 0x60 then binop as_int32 VInt32 (\<lambda>x y. x + y) f
      else if op = 0x61 then binop as_int64 VInt64 (\<lambda>x y. x + y) f
      else if op = 0x62 then binop as_float32 VFloat32 (\<lambda>x y. add32 h x y) f
      else if op = 0x63 then binop as_float64 VFloat64 (\<lambda>x y. add64 h x y) f
      else if op = 0x64 then binop as_int32 VInt32 (\<lambda>a b. b - a) f
      else if op = 0x65 then binop as_int64 VInt64 (\<lambda>a b. b - a) f
      else if op = 0x66 then binop as_float32 VFloat32 (\<lambda>a b. sub32 h b a) f
      else if op = 0x67 then binop as_float64 VFloat64 (\<lambda>a b. sub64 h b a) f
      else if op = 0x68 then binop as_int32 VInt32 (\<lambda>x y. x * y) f
      else if op = 0x69 then binop as_int64 VInt64 (\<lambda>x y. x * y) f
      else if op = 0x6A then binop as_float32 VFloat32 (\<lambda>x y. mul32 h x y) f
      else if op = 0x6B then binop as_float64 VFloat64 (\<lambda>x y. mul64 h x y) f
      else if op = 0xA7 then
        (case code_u2 f of
           None \<Rightarrow> Crash IndexOutOfRange
         | Some branch \<Rightarrow> Next (f\<lparr>IP := IP f - 3 + ucast branch\<rparr>))
      else if op \<in> {0xAC, 0xAD, 0xAE, 0xAF, 0xB0} then
        (case pop f of Inl p \<Rightarrow> Crash p | Inr (v, f1) \<Rightarrow> Returned v)
      else if op = 0xB1 then Returned VNil
      else Next f)"

text \<open>
  The opcodes whose \<^verbatim>\<open>case\<close> has a body (the handlers that exist); every other byte is
  either listed with an empty body or not listed.
\<close>

definition has_handler :: "byte \<Rightarrow> bool" where
  "has_handler op \<longleftrightarrow>
     (0x01 \<le> op \<and> op \<le> 0x35) \<or> op = 0x59 \<or> op = 0x5F \<or> (0x60 \<le> op \<and> op \<le> 0x6B) \<or>
     op = 0xA7 \<or> (0xAC \<le> op \<and> op \<le> 0xB8) \<or> op = 0xBB"

subsection \<open>The opcodes that resolve a class: 0xB2..0xB8 and 0xBB\<close>

text \<open>
  The common prologue of 0xB2..0xB8, up to the call of \<^verbatim>\<open>vm.Class\<close>: the frame with
  \<^verbatim>\<open>IP\<close> advanced by 2, the class name, the member name and the descriptor.
\<close>

definition cp_at :: "ConstPool \<Rightarrow> uint16 \<Rightarrow> panic + Const" where
  "cp_at cp index =
     (let i = unat (index - 1) in if i < length cp then Inr (cp ! i) else Inl IndexOutOfRange)"

definition ref_prologue :: "VM \<Rightarrow> Frame \<Rightarrow> panic + (Frame \<times> string \<times> string \<times> string)" where
  "ref_prologue vm f =
     (case obj_at vm (FrameClass f) of Inl p \<Rightarrow> Inl p | Inr ob \<Rightarrow>
      let cp = ConstPool (ObjClass ob) in
      case code_u2 f of None \<Rightarrow> Inl IndexOutOfRange | Some index \<Rightarrow>
      case cp_at cp index of Inl p \<Rightarrow> Inl p | Inr ref \<Rightarrow>
      case Resolve cp (ClassIndex ref) of Inl p \<Rightarrow> Inl p | Inr className \<Rightarrow>
      case cp_at cp (NameAndTypeIndex ref) of Inl p \<Rightarrow> Inl p | Inr nt \<Rightarrow>
      case Resolve cp (NameIndex nt) of Inl p \<Rightarrow> Inl p | Inr name \<Rightarrow>
      case Resolve cp (DescIndex nt) of Inl p \<Rightarrow> Inl p | Inr desc \<Rightarrow>
        Inr (f\<lparr>IP := IP f + 2\<rparr>, className, name, desc))"

text \<open>The prologue of NEW (0xBB): the frame with \<^verbatim>\<open>IP\<close> advanced by 2 and the class name.\<close>

definition new_prologue :: "VM \<Rightarrow> Frame \<Rightarrow> panic + (Frame \<times> string)" where
  "new_prologue vm f =
     (case obj_at vm (FrameClass f) of Inl p \<Rightarrow> Inl p | Inr ob \<Rightarrow>
      let cp = ConstPool (ObjClass ob) in
      case code_u2 f of None \<Rightarrow> Inl IndexOutOfRange | Some index \<Rightarrow>
      case cp_at cp index of Inl p \<Rightarrow> Inl p | Inr c \<Rightarrow>
      case Resolve cp (NameIndex c) of Inl p \<Rightarrow> Inl p | Inr className \<Rightarrow>
        Inr (f\<lparr>IP := IP f + 2\<rparr>, className))"

text \<open>GETSTATIC, PUTSTATIC, GETFIELD, PUTFIELD once the class \<open>c\<close> is resolved.\<close>

definition field_op :: "byte \<Rightarrow> VM \<Rightarrow> nat \<Rightarrow> string \<Rightarrow> Frame \<Rightarrow> panic + (VM \<times> Frame)" where
  "field_op op vm c name f =
     (if op = 0xB2 then
        (case obj_at vm c of Inl p \<Rightarrow> Inl p | Inr ob \<Rightarrow> Inr (vm, push f (Object_Field ob name)))
      else if op = 0xB3 then
        (case pop f of Inl p \<Rightarrow> Inl p | Inr (v, f1) \<Rightarrow>
         case SetField vm c name v of Inl p \<Rightarrow> Inl p | Inr vm' \<Rightarrow> Inr (vm', f1))
      else if op = 0xB4 then
        (case pop_as as_Object f of Inl p \<Rightarrow> Inl p | Inr (a, f1) \<Rightarrow>
         case obj_at vm a of Inl p \<Rightarrow> Inl p | Inr ob \<Rightarrow> Inr (vm, push f1 (Object_Field ob name)))
      else if op = 0xB5 then
        (case pop f of Inl p \<Rightarrow> Inl p | Inr (v, f1) \<Rightarrow>
         case pop_as as_Object f1 of Inl p \<Rightarrow> Inl p | Inr (a, f2) \<Rightarrow>
         case SetField vm a name v of Inl p \<Rightarrow> Inl p | Inr vm' \<Rightarrow> Inr (vm', f2))
      else Inr (vm, f))"

text \<open>
  The argument slice of an invoke: \<^verbatim>\<open>frame.Stack[len(frame.Stack)-n-1:]\<close> for
  INVOKEVIRTUAL and INVOKESPECIAL, \<^verbatim>\<open>frame.Stack[len(frame.Stack)-n:]\<close> for INVOKESTATIC;
  a negative bound panics.
\<close>

definition invoke_args :: "byte \<Rightarrow> nat \<Rightarrow> Frame \<Rightarrow> panic + Value list" where
  "invoke_args op n f =
     (let k = (if op = 0xB8 then n else n + 1) in
      if length (Stack f) < k then Inl IndexOutOfRange
      else Inr (drop (length (Stack f) - k) (Stack f)))"

text \<open>
  After the call returned without error: \<^verbatim>\<open>frame.Stack = frame.Stack[:len(frame.Stack)-n]\<close>
  and \<^verbatim>\<open>_ = res\<close>.
\<close>

definition after_invoke :: "nat \<Rightarrow> Value \<Rightarrow> Frame \<Rightarrow> Frame" where
  "after_invoke n res f = f\<lparr>Stack := take (length (Stack f) - n) (Stack f)\<rparr>"

subsection \<open>\<^verbatim>\<open>VM.Class\<close>, \<^verbatim>\<open>VM.callMethod\<close>, \<^verbatim>\<open>VM.CallMethod\<close>, \<^verbatim>\<open>VM.exec\<close>\<close>

text \<open>
  The first loop of \<^verbatim>\<open>VM.Class\<close>: the first registered class object with the name.
\<close>

fun scan_classes :: "VM \<Rightarrow> string \<Rightarrow> nat list \<Rightarrow> panic + nat option" where
  "scan_classes vm name [] = Inr None"
| "scan_classes vm name (c # cs) =
     (case obj_at vm c of
        Inl p \<Rightarrow> Inl p
      | Inr ob \<Rightarrow> if Name (ObjClass ob) = name then Inr (Some c) else scan_classes vm name cs)"

text \<open>
  The second loop of \<^verbatim>\<open>VM.Class\<close> leaves a path with \<^verbatim>\<open>continue\<close> when the file cannot be
  opened or \<^verbatim>\<open>Load\<close> returns an error, and returns from \<^verbatim>\<open>VM.Class\<close> on every way
  through the rest of its body. So the loop finds the first path whose file loads, and
  the rest of the body runs once, for that class.
\<close>

fun load_first :: "Host \<Rightarrow> string \<Rightarrow> string list \<Rightarrow> panic + Class option" where
  "load_first h name [] = Inr None"
| "load_first h name (path # paths) =
     (case open_class h path name of
        None \<Rightarrow> load_first h name paths
      | Some inp \<Rightarrow>
          (case Load inp of
             Inl p \<Rightarrow> Inl p
           | Inr (c, Some e) \<Rightarrow> load_first h name paths
           | Inr (c, None) \<Rightarrow> Inr (Some c)))"

text \<open>
  \<^verbatim>\<open>classObj := &Object{Class: c, SuperInstance: super, Fields: map[string]Value{}}\<close> and
  \<^verbatim>\<open>vm.Classes = append(vm.Classes, classObj)\<close>.
\<close>

definition register_class :: "VM \<Rightarrow> Class \<Rightarrow> nat option \<Rightarrow> VM \<times> nat" where
  "register_class vm c super =
     (vm\<lparr>Heap := Heap vm @
           [\<lparr>ObjClass = c, ClassInstance = None, SuperInstance = super,
             ObjFields = Some Map.empty\<rparr>],
         Classes := Classes vm @ [length (Heap vm)]\<rparr>,
      length (Heap vm))"

text \<open>
  The start of \<^verbatim>\<open>callMethod\<close>: the first attribute named Code with more than 8 bytes, and
  the loop \<^verbatim>\<open>for i := 0; i < len(args); i++ { frame.Locals[i] = args[i] }\<close> on the
  \<^verbatim>\<open>maxLocals\<close> nil slots (the second argument of \<open>copy_args\<close> is \<^verbatim>\<open>i\<close>, the fourth the
  arguments from \<^verbatim>\<open>i\<close> on).
\<close>

definition code_attr :: "Field \<Rightarrow> Attribute option" where
  "code_attr m = find (\<lambda>a. AName a = ''Code'' \<and> 8 < length (Data a)) (FAttributes m)"

definition maxLocals :: "Attribute \<Rightarrow> uint16" where
  "maxLocals a = be16 (take 2 (drop 2 (Data a)))"

fun copy_args :: "Value list \<Rightarrow> nat \<Rightarrow> Value list \<Rightarrow> panic + Value list" where
  "copy_args locals i [] = Inr locals"
| "copy_args locals i (a # as) =
     (if i < length locals then copy_args (locals[i := a]) (Suc i) as else Inl IndexOutOfRange)"

definition new_frame :: "nat \<Rightarrow> Attribute \<Rightarrow> Value list \<Rightarrow> panic + Frame" where
  "new_frame obj a args =
     (case copy_args (replicate (unat (maxLocals a)) VNil) 0 args of
        Inl p \<Rightarrow> Inl p
      | Inr locals \<Rightarrow>
          Inr \<lparr>FrameClass = obj, IP = 0, Code = drop 8 (Data a), Locals = locals, Stack = []\<rparr>)"

text \<open>
  \<^verbatim>\<open>exec\<close>, \<^verbatim>\<open>VM.Class\<close>, \<^verbatim>\<open>callMethod\<close> and \<^verbatim>\<open>CallMethod\<close> call each other, and the loop of
  \<^verbatim>\<open>exec\<close> need not end. Their bodies are written first with the functions they call as
  arguments (\<open>ex\<close> for \<^verbatim>\<open>vm.exec\<close>, \<open>cl\<close> for \<^verbatim>\<open>vm.Class\<close>); the recursion is then closed
  by fuel: one unit for every pass of the loop of \<^verbatim>\<open>exec\<close> and for every nested call of
  \<^verbatim>\<open>exec\<close> or \<^verbatim>\<open>vm.Class\<close>. A run that needs more is \<open>OutOfFuel\<close>.
\<close>

type_synonym exec_fn = "VM \<Rightarrow> Frame \<Rightarrow> Value result \<times> VM"
type_synonym class_fn = "VM \<Rightarrow> string \<Rightarrow> nat result \<times> VM"

definition callMethod_with ::
  "exec_fn \<Rightarrow> VM \<Rightarrow> nat \<Rightarrow> Field \<Rightarrow> Value list \<Rightarrow> Value result \<times> VM" where
  "callMethod_with ex vm obj m args =
     (case code_attr m of
        Some a \<Rightarrow>
          (case new_frame obj a args of
             Inl p \<Rightarrow> (Panic p, vm)
           | Inr frame \<Rightarrow> ex vm frame)
      | None \<Rightarrow>
          (case obj_at vm obj of
             Inl p \<Rightarrow> (Panic p, vm)
           | Inr ob \<Rightarrow>
               (case Native vm (Name (ObjClass ob) @ ''.'' @ FName m) of
                  Some f \<Rightarrow> (Ok (f args), vm)
                | None \<Rightarrow> (Err MethodCodeNotFound, vm))))"

definition CallMethod_with ::
  "exec_fn \<Rightarrow> VM \<Rightarrow> nat \<Rightarrow> string \<Rightarrow> string \<Rightarrow> Value list \<Rightarrow> Value result \<times> VM" where
  "CallMethod_with ex vm obj method desc args =
     (case obj_at vm obj of
        Inl p \<Rightarrow> (Panic p, vm)
      | Inr ob \<Rightarrow>
          (case Method ob method desc of
             Inl e \<Rightarrow> (Err e, vm)
           | Inr m \<Rightarrow> callMethod_with ex vm obj m args))"

text \<open>
  \<^verbatim>\<open>VM.Class\<close>. Its steps after a class file is loaded come first: the resolution of the
  super class (\<open>resolve_super\<close>, \<open>None\<close> being the nil \<^verbatim>\<open>super\<close>) and the call of
  \<^verbatim>\<open><clinit>\<close> on the registered class object (\<open>run_clinit\<close>).
\<close>

definition resolve_super :: "class_fn \<Rightarrow> VM \<Rightarrow> Class \<Rightarrow> nat option result \<times> VM" where
  "resolve_super cl vm c =
     (if Super c \<noteq> [] then
        (case cl vm (Super c) of
           (Ok s, vm1) \<Rightarrow> (Ok (Some s), vm1)
         | (res, vm1) \<Rightarrow> (fail_of res, vm1))
      else (Ok None, vm))"

definition run_clinit :: "exec_fn \<Rightarrow> VM \<Rightarrow> nat \<Rightarrow> nat result \<times> VM" where
  "run_clinit ex vm2 classObj =
     (case obj_at vm2 classObj of
        Inl p \<Rightarrow> (Panic p, vm2)
      | Inr ob \<Rightarrow>
          (case Method ob ''<clinit>'' ''()V'' of
             Inl e \<Rightarrow> (Ok classObj, vm2)
           | Inr m \<Rightarrow>
               (case callMethod_with ex vm2 classObj m [] of
                  (Ok v, vm3) \<Rightarrow> (Ok classObj, vm3)
                | (res, vm3) \<Rightarrow> (fail_of res, vm3))))"

definition Class_with :: "Host \<Rightarrow> class_fn \<Rightarrow> exec_fn \<Rightarrow> VM \<Rightarrow> string \<Rightarrow> nat result \<times> VM" where
  "Class_with h cl ex vm name =
     (case scan_classes vm name (Classes vm) of
        Inl p \<Rightarrow> (Panic p, vm)
      | Inr (Some c) \<Rightarrow> (Ok c, vm)
      | Inr None \<Rightarrow>
          (case load_first h name (ClassPath vm) of
             Inl p \<Rightarrow> (Panic p, vm)
           | Inr None \<Rightarrow> (Err ClassNotFound, vm)
           | Inr (Some c) \<Rightarrow>
               (case resolve_super cl vm c of
                  (Ok super, vm1) \<Rightarrow>
                    (case register_class vm1 c super of
                       (vm2, classObj) \<Rightarrow> run_clinit ex vm2 classObj)
                | (res, vm1) \<Rightarrow> (fail_of res, vm1))))"

text \<open>
  One pass of the loop of \<^verbatim>\<open>exec\<close>; \<open>ex\<close> runs the passes that follow. The bodies of the
  invoke opcodes (\<open>invoke_pass\<close>), of \<^verbatim>\<open>case 0xB2, ..., 0xB8\<close> (\<open>ref_pass\<close>) and of NEW
  (\<open>new_pass\<close>) come first.
\<close>

definition invoke_pass ::
  "exec_fn \<Rightarrow> byte \<Rightarrow> VM \<Rightarrow> nat \<Rightarrow> string \<Rightarrow> string \<Rightarrow> Frame \<Rightarrow> Value result \<times> VM" where
  "invoke_pass ex op vm1 c name desc f1 =
     (case invoke_args op (argc desc) f1 of
        Inl p \<Rightarrow> (Panic p, vm1)
      | Inr args \<Rightarrow>
          (case CallMethod_with ex vm1 c name desc args of
             (Ok res, vm2) \<Rightarrow> ex vm2 ((after_invoke (argc desc) res f1)\<lparr>IP := IP f1 + 1\<rparr>)
           | (res, vm2) \<Rightarrow> (res, vm2)))"

definition ref_pass ::
  "exec_fn \<Rightarrow> class_fn \<Rightarrow> byte \<Rightarrow> VM \<Rightarrow> Frame \<Rightarrow> Value result \<times> VM" where
  "ref_pass ex cl op vm frame =
     (case ref_prologue vm frame of
        Inl p \<Rightarrow> (Panic p, vm)
      | Inr (f1, className, name, desc) \<Rightarrow>
          (case cl vm className of
             (Ok c, vm1) \<Rightarrow>
               if op \<in> {0xB6, 0xB7, 0xB8} then invoke_pass ex op vm1 c name desc f1
               else
                 (case field_op op vm1 c name f1 of
                    Inl p \<Rightarrow> (Panic p, vm1)
                  | Inr (vm2, f2) \<Rightarrow> ex vm2 (f2\<lparr>IP := IP f2 + 1\<rparr>))
           | (res, vm1) \<Rightarrow> (fail_of res, vm1)))"

definition new_pass :: "exec_fn \<Rightarrow> class_fn \<Rightarrow> VM \<Rightarrow> Frame \<Rightarrow> Value result \<times> VM" where
  "new_pass ex cl vm frame =
     (case new_prologue vm frame of
        Inl p \<Rightarrow> (Panic p, vm)
      | Inr (f1, className) \<Rightarrow>
          (case cl vm className of
             (Ok c, vm1) \<Rightarrow>
               (case Object_New vm1 c of
                  Inl p \<Rightarrow> (Panic p, vm1)
                | Inr (vm2, a) \<Rightarrow> ex vm2 ((push f1 (VObject a))\<lparr>IP := IP f1 + 1\<rparr>))
           | (res, vm1) \<Rightarrow> (fail_of res, vm1)))"

definition exec_pass :: "Host \<Rightarrow> exec_fn \<Rightarrow> class_fn \<Rightarrow> VM \<Rightarrow> Frame \<Rightarrow> Value result \<times> VM" where
  "exec_pass h ex cl vm frame =
     (if length (Code frame) \<le> unat (IP frame) then (Panic IndexOutOfRange, vm)
      else
        let op = Code frame ! unat (IP frame) in
        if op \<in> {0xB2, 0xB3, 0xB4, 0xB5, 0xB6, 0xB7, 0xB8} then ref_pass ex cl op vm frame
        else if op = 0xBB then new_pass ex cl vm frame
        else
          (case exec_op h vm op frame of
             Next f1 \<Rightarrow> ex vm (f1\<lparr>IP := IP f1 + 1\<rparr>)
           | Returned v \<Rightarrow> (Ok v, vm)
           | Crash p \<Rightarrow> (Panic p, vm)))"

text \<open>Closing the recursion: \<open>exec\<close> and \<open>VM_Class\<close> with \<open>n\<close> units of fuel.\<close>

primrec exec_Class :: "Host \<Rightarrow> nat \<Rightarrow> exec_fn \<times> class_fn" where
  "exec_Class h 0 = ((\<lambda>vm frame. (OutOfFuel, vm)), (\<lambda>vm name. (OutOfFuel, vm)))"
| "exec_Class h (Suc n) =
     (exec_pass h (fst (exec_Class h n)) (snd (exec_Class h n)),
      Class_with h (snd (exec_Class h n)) (fst (exec_Class h n)))"

definition exec :: "Host \<Rightarrow> nat \<Rightarrow> VM \<Rightarrow> Frame \<Rightarrow> Value result \<times> VM" where
  "exec h n = fst (exec_Class h n)"

definition VM_Class :: "Host \<Rightarrow> nat \<Rightarrow> VM \<Rightarrow> string \<Rightarrow> nat result \<times> VM" where
  "VM_Class h n = snd (exec_Class h n)"

definition callMethod ::
  "Host \<Rightarrow> nat \<Rightarrow> VM \<Rightarrow> nat \<Rightarrow> Field \<Rightarrow> Value list \<Rightarrow> Value result \<times> VM" where
  "callMethod h n = callMethod_with (exec h n)"

definition CallMethod ::
  "Host \<Rightarrow> nat \<Rightarrow> VM \<Rightarrow> nat \<Rightarrow> string \<Rightarrow> string \<Rightarrow> Value list \<Rightarrow> Value result \<times> VM" where
  "CallMethod h n = CallMethod_with (exec h n)"

text \<open>\<^verbatim>\<open>VM.Call\<close>: the method is looked up with the empty descriptor.\<close>

definition Call :: "Host \<Rightarrow> nat \<Rightarrow> VM \<Rightarrow> string \<Rightarrow> string \<Rightarrow> Value list \<Rightarrow> Value result \<times> VM" where
  "Call h n vm class method args =
     (case VM_Class h n vm class of
        (Ok c, vm1) \<Rightarrow> CallMethod h n vm1 c method [] args
      | (res, vm1) \<Rightarrow> (fail_of res, vm1))"

subsection \<open>Inputs for the examples\<close>

text \<open>
  A host without class files. The examples run no floating-point opcode, so its
  floating-point operations are never called.
\<close>

definition no_files :: Host where
  "no_files =
     \<lparr>open_class = (\<lambda>path name. None),
      add32 = (\<lambda>x y. 0), sub32 = (\<lambda>x y. 0), mul32 = (\<lambda>x y. 0),
      add64 = (\<lambda>x y. 0), sub64 = (\<lambda>x y. 0), mul64 = (\<lambda>x y. 0)\<rparr>"

text \<open>A frame at the start of the code \<open>c\<close>, with no locals and an empty stack.\<close>

definition frame_of :: "byte list \<Rightarrow> Frame" where
  "frame_of c = \<lparr>FrameClass = 0, IP = 0, Code = c, Locals = [], Stack = []\<rparr>"

text \<open>
  A static method \<^verbatim>\<open>third(int, int, int)\<close> whose Code attribute declares
  \<^verbatim>\<open>max_stack = 1\<close> and \<^verbatim>\<open>max_locals = 3\<close>, with the code ILOAD_2; IRETURN.
\<close>

definition example_method :: Field where
  "example_method =
     \<lparr>FFlags = 8, FName = ''third'', Descriptor = ''(III)I'',
      FAttributes =
        [\<lparr>AName = ''Code'', Data = [0, 1, 0, 3, 0, 0, 0, 2, 0x1C, 0xAC, 0, 0, 0, 0]\<rparr>]\<rparr>"

text \<open>
  A class \<^verbatim>\<open>T\<close> with the static method \<^verbatim>\<open>int one() { return 1; }\<close> (ICONST_1; IRETURN) and
  the constant pool of a caller: entry 1 is the method reference \<^verbatim>\<open>T.one:()I\<close>. \<open>vm_T\<close> is a
  fresh VM in which \<^verbatim>\<open>T\<close> is registered, at address 1.
\<close>

definition Utf8 :: "string \<Rightarrow> Const" where
  "Utf8 s = (Const_of_Tag TagUTF8)\<lparr>String := s\<rparr>"

definition class_T :: Class where
  "class_T =
     \<lparr>ConstPool =
        [(Const_of_Tag TagMethodRef)\<lparr>ClassIndex := 2, NameAndTypeIndex := 3\<rparr>,
         (Const_of_Tag TagClass)\<lparr>NameIndex := 4\<rparr>,
         (Const_of_Tag TagNameAndType)\<lparr>NameIndex := 5, DescIndex := 6\<rparr>,
         Utf8 ''T'', Utf8 ''one'', Utf8 ''()I''],
      Name = ''T'', Super = ''java/lang/Object'', Flags = 0x21, Interfaces = [], Fields = [],
      Methods =
        [\<lparr>FFlags = 8, FName = ''one'', Descriptor = ''()I'',
          FAttributes =
            [\<lparr>AName = ''Code'', Data = [0, 1, 0, 0, 0, 0, 0, 2, 0x04, 0xAC, 0, 0, 0, 0]\<rparr>]\<rparr>],
      Attributes = []\<rparr>"

definition vm_T :: VM where
  "vm_T = fst (register_class (New []) class_T (Some 0))"

subsection \<open>The registry: predicates for its invariants\<close>

text \<open>
  \<open>registry_ok\<close>: every registered class object is allocated. \<open>grows vm vm'\<close>: from \<open>vm\<close> to
  \<open>vm'\<close> the registry was only appended to, the store only grew, no object changed its
  class, and a sound registry stayed sound. \<open>ex_grows\<close> and \<open>cl_ok\<close> say that a function
  standing for \<^verbatim>\<open>vm.exec\<close> or \<^verbatim>\<open>vm.Class\<close> changes the VM in this way only, and that a
  class object returned by \<^verbatim>\<open>vm.Class\<close> is registered.
\<close>

definition registry_ok :: "VM \<Rightarrow> bool" where
  "registry_ok vm \<longleftrightarrow> list_all (\<lambda>c. c < length (Heap vm)) (Classes vm)"

definition grows :: "VM \<Rightarrow> VM \<Rightarrow> bool" where
  "grows vm vm' \<longleftrightarrow>
     (\<exists>cs. Classes vm' = Classes vm @ cs) \<and>
     length (Heap vm) \<le> length (Heap vm') \<and>
     (\<forall>a < length (Heap vm). ObjClass (Heap vm' ! a) = ObjClass (Heap vm ! a)) \<and>
     (registry_ok vm \<longrightarrow> registry_ok vm')"

definition ex_grows :: "exec_fn \<Rightarrow> bool" where
  "ex_grows ex \<longleftrightarrow> (\<forall>vm f. grows vm (snd (ex vm f)))"

definition cl_ok :: "class_fn \<Rightarrow> bool" where
  "cl_ok cl \<longleftrightarrow>
     (\<forall>vm name. grows vm (snd (cl vm name)) \<and>
        (\<forall>c. fst (cl vm name) = Ok c \<longrightarrow> c \<in> set (Classes (snd (cl vm name)))))"

subsection \<open>Two class files\<close>

text \<open>
  The class files of \<^verbatim>\<open>class B { static { new A(); } }\<close> (its \<^verbatim>\<open><clinit>\<close> is NEW A; RETURN)
  and \<^verbatim>\<open>class A extends B {}\<close>, and what \<^verbatim>\<open>Load\<close> makes of them (\<open>class_B\<close>, \<open>class_A\<close>).
  The host \<open>ab_host\<close> has the directory \<^verbatim>\<open>cp\<close> with \<^verbatim>\<open>A.class\<close>, \<^verbatim>\<open>B.class\<close> and
  \<^verbatim>\<open>Alias.class\<close>, a copy of \<^verbatim>\<open>A.class\<close>. \<open>vm_AB\<close> is the VM after the first resolution of
  \<^verbatim>\<open>A\<close> and \<open>vm_B\<close> the VM after the first resolution of \<^verbatim>\<open>B\<close>, both from a fresh VM.
\<close>

definition A_class :: "byte list" where
  "A_class =
     [0xCA, 0xFE, 0xBA, 0xBE, 0x00, 0x00, 0x00, 0x34,
      0x00, 0x05,
      0x01, 0x00, 0x01, 0x41,
      0x07, 0x00, 0x01,
      0x01, 0x00, 0x01, 0x42,
      0x07, 0x00, 0x03,
      0x00, 0x21, 0x00, 0x02, 0x00, 0x04,
      0x00, 0x00, 0x00, 0x00, 0x00, 0x00, 0x00, 0x00]"

definition B_class :: "byte list" where
  "B_class =
     [0xCA, 0xFE, 0xBA, 0xBE, 0x00, 0x00, 0x00, 0x34,
      0x00, 0x0A,
      0x01, 0x00, 0x01, 0x42,
      0x07, 0x00, 0x01,
      0x01, 0x00, 0x10, 0x6A, 0x61, 0x76, 0x61, 0x2F, 0x6C, 0x61, 0x6E, 0x67, 0x2F,
                        0x4F, 0x62, 0x6A, 0x65, 0x63, 0x74,
      0x07, 0x00, 0x03,
      0x01, 0x00, 0x08, 0x3C, 0x63, 0x6C, 0x69, 0x6E, 0x69, 0x74, 0x3E,
      0x01, 0x00, 0x03, 0x28, 0x29, 0x56,
      0x01, 0x00, 0x04, 0x43, 0x6F, 0x64, 0x65,
      0x01, 0x00, 0x01, 0x41,
      0x07, 0x00, 0x08,
      0x00, 0x21, 0x00, 0x02, 0x00, 0x04,
      0x00, 0x00, 0x00, 0x00,
      0x00, 0x01,
      0x00, 0x08, 0x00, 0x05, 0x00, 0x06, 0x00, 0x01,
      0x00, 0x07, 0x00, 0x00, 0x00, 0x10,
      0x00, 0x01, 0x00, 0x00, 0x00, 0x00, 0x00, 0x04,
      0xBB, 0x00, 0x09, 0xB1,
      0x00, 0x00, 0x00, 0x00,
      0x00, 0x00]"

definition class_A :: Class where
  "class_A =
     \<lparr>ConstPool = [Utf8 ''A'', (Const_of_Tag TagClass)\<lparr>NameIndex := 1\<rparr>,
                   Utf8 ''B'', (Const_of_Tag TagClass)\<lparr>NameIndex := 3\<rparr>],
      Name = ''A'', Super = ''B'', Flags = 0x21, Interfaces = [], Fields = [], Methods = [],
      Attributes = []\<rparr>"

definition class_B :: Class where
  "class_B =
     \<lparr>ConstPool = [Utf8 ''B'', (Const_of_Tag TagClass)\<lparr>NameIndex := 1\<rparr>,
                   Utf8 ''java/lang/Object'', (Const_of_Tag TagClass)\<lparr>NameIndex := 3\<rparr>,
                   Utf8 ''<clinit>'', Utf8 ''()V'', Utf8 ''Code'',
                   Utf8 ''A'', (Const_of_Tag TagClass)\<lparr>NameIndex := 8\<rparr>],
      Name = ''B'', Super = ''java/lang/Object'', Flags = 0x21, Interfaces = [], Fields = [],
      Methods =
        [\<lparr>FFlags = 8, FName = ''<clinit>'', Descriptor = ''()V'',
          FAttributes =
            [\<lparr>AName = ''Code'',
              Data = [0, 1, 0, 0, 0, 0, 0, 4, 0xBB, 0x00, 0x09, 0xB1, 0, 0, 0, 0]\<rparr>]\<rparr>],
      Attributes = []\<rparr>"

definition ab_host :: Host where
  "ab_host =
     \<lparr>open_class = (\<lambda>path name.
        if path = ''cp'' \<and> (name = ''A'' \<or> name = ''Alias'') then Some A_class
        else if path = ''cp'' \<and> name = ''B'' then Some B_class
        else None),
      add32 = (\<lambda>x y. 0), sub32 = (\<lambda>x y. 0), mul32 = (\<lambda>x y. 0),
      add64 = (\<lambda>x y. 0), sub64 = (\<lambda>x y. 0), mul64 = (\<lambda>x y. 0)\<rparr>"

definition class_object :: "Class \<Rightarrow> nat option \<Rightarrow> Object" where
  "class_object c super =
     \<lparr>ObjClass = c, ClassInstance = None, SuperInstance = super, ObjFields = Some Map.empty\<rparr>"

definition instance_of :: "Class \<Rightarrow> nat \<Rightarrow> Object" where
  "instance_of c a =
     \<lparr>ObjClass = c, ClassInstance = Some a, SuperInstance = None, ObjFields = Some Map.empty\<rparr>"

definition vm_AB :: VM where
  "vm_AB = (New [''cp''])\<lparr>Classes := [0, 1, 2, 4],
     Heap := Heap (New [''cp'']) @
       [class_object class_B (Some 0), class_object class_A (Some 1), instance_of class_A 2,
        class_object class_A (Some 1)]\<rparr>"

definition vm_B :: VM where
  "vm_B = (New [''cp''])\<lparr>Classes := [0, 1, 2],
     Heap := Heap (New [''cp'']) @
       [class_object class_B (Some 0), class_object class_A (Some 1), instance_of class_A 2]\<rparr>"

section \<open>Properties\<close>

subsection \<open>The recursion equations of the interpreter\<close>

lemma exec_0: "exec h 0 vm frame = (OutOfFuel, vm)"
  by (simp add: exec_def)

lemma exec_Suc: "exec h (Suc n) vm frame = exec_pass h (exec h n) (VM_Class h n) vm frame"
  by (simp add: exec_def VM_Class_def)

lemma VM_Class_0: "VM_Class h 0 vm name = (OutOfFuel, vm)"
  by (simp add: VM_Class_def)

lemma VM_Class_Suc:
  "VM_Class h (Suc n) vm name = Class_with h (VM_Class h n) (exec h n) vm name"
  by (simp add: exec_def VM_Class_def)

text \<open>A pass on an opcode other than 0xB2..0xB8 and 0xBB is \<open>exec_op\<close> and \<^verbatim>\<open>IP++\<close>.\<close>

lemma exec_no_ref:
  assumes "unat (IP f) < length (Code f)"
    and "Code f ! unat (IP f) \<notin> {0xB2, 0xB3, 0xB4, 0xB5, 0xB6, 0xB7, 0xB8, 0xBB}"
  shows "exec h (Suc n) vm f =
           (case exec_op h vm (Code f ! unat (IP f)) f of
              Next f1 \<Rightarrow> exec h n vm (f1\<lparr>IP := IP f1 + 1\<rparr>)
            | Returned v \<Rightarrow> (Ok v, vm)
            | Crash p \<Rightarrow> (Panic p, vm))"
  using assms by (simp add: exec_Suc exec_pass_def Let_def)

text \<open>What is unfolded to run the interpreter on a concrete frame.\<close>

lemmas run_simps = exec_Suc exec_0 exec_pass_def exec_op_def push_def pop_def pop_as_def
  binop_def Let_def code_u1_def code_u2_def be16_def frame_of_def

text \<open>What is unfolded in addition when the frame resolves classes and calls methods.\<close>

lemmas call_simps = ref_pass_def invoke_pass_def new_pass_def new_prologue_def Object_New_def
  ref_prologue_def obj_at_def cp_at_def Resolve_def tag_defs VM_Class_Suc
  VM_Class_0 Class_with_def resolve_super_def run_clinit_def CallMethod_with_def callMethod_with_def Method_def code_attr_def
  new_frame_def maxLocals_def invoke_args_def argc_def after_invoke_def register_class_def
  New_def Utf8_def Const_of_Tag_def load_local_def

subsection \<open>Descriptor argument counting\<close>

text \<open>
  C3. The claim: \<open>argc\<close> counts one argument per parameter, a \<open>[\<close> prefix being absorbed
  into the argument that follows, so that \<open>argc "([I)V" = 1\<close> and
  \<open>argc "(I[JLjava/lang/String;)V" = 3\<close>. The code has no case for \<open>[\<close>: it counts it as an
  argument of its own, and the two descriptors count 2 and 4.
\<close>

theorem argc_counts_array_prefix:
  "argc ''([I)V'' = 2 \<and> argc ''(I[JLjava/lang/String;)V'' = 4"
  by (simp add: argc_def)

subsection \<open>The binary reader\<close>

lemma bytes_latched: "err l = Some e \<Longrightarrow> bytes l n = (replicate n 0, l)"
  by (simp add: bytes_def)

lemma be_zero:
  "be16 (replicate 2 0) = 0" "be32 (replicate 4 0) = 0" "be64 (replicate 8 0) = 0"
  by (simp_all add: be16_def be32_def be64_def numeral_2_eq_2 numeral_Bit0 replicate_add)

lemma do_read_latched: "err l = Some e \<Longrightarrow> do_read l q = (zero_val q, l)"
  by (cases q) (simp_all add: u1_def u2_def u4_def u8_def bytes_latched be_zero)

text \<open>
  C8. The error state of the reader is sticky: once a read has set the error, every later
  read (\<open>u1\<close>, \<open>u2\<close>, \<open>u4\<close>, \<open>u8\<close>, \<open>bytes\<close>), in any sequence, consumes no input, returns
  the zero value of the requested size and leaves the latched error as it is.
\<close>

theorem reader_error_sticky:
  "err l = Some e \<Longrightarrow> do_reads l qs = (map zero_val qs, l)"
  by (induction qs) (simp_all add: do_read_latched)

text \<open>
  The witness: a \<open>u2\<close> on a one-byte input latches \<open>ErrUnexpectedEOF\<close>; the three reads
  after it return zeros and change nothing.
\<close>

theorem reader_error_sticky_witness:
  "err (snd (u2 \<lparr>reader = [1], err = None\<rparr>)) = Some ErrUnexpectedEOF \<and>
   do_reads (snd (u2 \<lparr>reader = [1], err = None\<rparr>)) [U1, U4, Bytes 3] =
     ([V1 0, V4 0, VBytes [0, 0, 0]], snd (u2 \<lparr>reader = [1], err = None\<rparr>))"
proof -
  have e: "err (snd (u2 \<lparr>reader = [1], err = None\<rparr>)) = Some ErrUnexpectedEOF"
    by (simp add: u2_def bytes_def ReadFull_def)
  from reader_error_sticky[OF e, of "[U1, U4, Bytes 3]"] e show ?thesis
    by (simp add: numeral_3_eq_3)
qed

subsection \<open>Constants\<close>

text \<open>
  C4. The claim: LCONST_0 (0x09) pushes the 64-bit integer 0. The code pushes
  \<^verbatim>\<open>int64(5)\<close>: the method LCONST_0; LRETURN returns 5.
\<close>

theorem LCONST_0_pushes_5:
  "exec_op h vm 0x09 f = Next (push f (VInt64 5)) \<and>
   exec h (Suc (Suc 0)) vm (frame_of [0x09, 0xAD]) = (Ok (VInt64 5), vm)"
  by (simp add: run_simps)

subsection \<open>Integer arithmetic\<close>

lemma exec_op_arith:
  "exec_op h vm 0x60 f = binop as_int32 VInt32 (\<lambda>x y. x + y) f"
  "exec_op h vm 0x64 f = binop as_int32 VInt32 (\<lambda>a b. b - a) f"
  "exec_op h vm 0x68 f = binop as_int32 VInt32 (\<lambda>x y. x * y) f"
  by (simp_all add: exec_op_def)

lemma binop_int32:
  "Stack f = st @ [VInt32 x, VInt32 y] \<Longrightarrow>
   binop as_int32 VInt32 g f = Next (f\<lparr>Stack := st @ [VInt32 (g y x)]\<rparr>)"
  by (simp add: binop_def pop_as_def pop_def push_def butlast_append)

text \<open>
  C9. With the \<^verbatim>\<open>int32\<close> values \<open>x\<close> and then \<open>y\<close> pushed last on the operand stack, IADD
  (0x60) replaces them by \<open>x + y\<close>, IMUL (0x68) by \<open>x * y\<close> and ISUB (0x64), which pops
  \<open>a = y\<close> and then \<open>b = x\<close> and pushes \<open>b - a\<close>, by \<open>x - y\<close>; the arithmetic is that of
  32-bit words (modulo \<open>2^32\<close>), and the loop goes on at the next opcode.
\<close>

theorem int32_add_sub_mul:
  assumes "unat (IP f) < length (Code f)"
    and "Code f ! unat (IP f) = op"
    and "op = 0x60 \<or> op = 0x64 \<or> op = 0x68"
    and "Stack f = st @ [VInt32 x, VInt32 y]"
  shows "exec h (Suc n) vm f =
           exec h n vm
             (f\<lparr>Stack := st @ [VInt32 (if op = 0x60 then x + y
                                       else if op = 0x64 then x - y else x * y)],
                IP := IP f + 1\<rparr>)"
proof -
  have nr: "Code f ! unat (IP f) \<notin> {0xB2, 0xB3, 0xB4, 0xB5, 0xB6, 0xB7, 0xB8, 0xBB}"
    using assms(2,3) by auto
  have "exec_op h vm op f =
          Next (f\<lparr>Stack := st @ [VInt32 (if op = 0x60 then x + y
                                         else if op = 0x64 then x - y else x * y)]\<rparr>)"
    using assms(3) binop_int32[OF assms(4)]
    by (auto simp: exec_op_arith add.commute mult.commute)
  with exec_no_ref[OF assms(1) nr] assms(2) show ?thesis by simp
qed

text \<open>
  The witness: ISUB on 3 and 5 followed by IRETURN returns \<open>3 - 5\<close>, that is \<open>-2\<close> as a
  32-bit word.
\<close>

theorem int32_add_sub_mul_witness:
  "exec no_files (Suc (Suc 0)) (New [])
     \<lparr>FrameClass = 0, IP = 2, Code = [0x06, 0x08, 0x64, 0xAC], Locals = [],
      Stack = [VInt32 3, VInt32 5]\<rparr> = (Ok (VInt32 (- 2)), New [])"
  using int32_add_sub_mul[of "\<lparr>FrameClass = 0, IP = 2, Code = [0x06, 0x08, 0x64, 0xAC],
      Locals = [], Stack = [VInt32 3, VInt32 5]\<rparr>" "0x64" "[]" 3 5 no_files "Suc 0" "New []"]
  by (simp add: run_simps)

subsection \<open>Branches\<close>

text \<open>
  C2. The claim: after GOTO (0xA7) at offset \<open>p\<close> with the signed 16-bit offset \<open>d\<close> the
  next opcode fetched is the one at \<open>p + d\<close>, for negative \<open>d\<close> too. The code reads the
  offset unsigned and sets \<^verbatim>\<open>IP = IP - 3 + branch\<close>, so the next fetch is at
  \<open>p + d - 2\<close> for \<open>d \<ge> 0\<close> and at \<open>p + d + 65534\<close> for \<open>d < 0\<close>. First run: GOTO +5 at
  offset 0 must reach ICONST_1; IRETURN at offset 5 and return 1, and reaches ICONST_0;
  IRETURN at offset 3. Second run: GOTO -1 at offset 1 must reach offset 0, and leaves
  the code.
\<close>

theorem GOTO_misses_target:
  "exec h (Suc (Suc (Suc 0))) vm (frame_of [0xA7, 0x00, 0x05, 0x03, 0xAC, 0x04, 0xAC]) =
     (Ok (VInt32 0), vm) \<and>
   exec h (Suc (Suc (Suc 0))) vm (frame_of [0x00, 0xA7, 0xFF, 0xFF]) =
     (Panic IndexOutOfRange, vm)"
  by (simp add: run_simps)

subsection \<open>Opcodes without a handler\<close>

lemma no_handler_neq: "\<not> has_handler op \<Longrightarrow> has_handler c \<Longrightarrow> (op = c) = False"
  by auto

lemma exec_op_no_handler:
  assumes "\<not> has_handler op"
  shows "exec_op h vm op f = Next f"
  unfolding exec_op_def
  by (simp add: no_handler_neq[OF assms] has_handler_def)

lemma exec_no_handler:
  assumes "unat (IP f) < length (Code f)" and "\<not> has_handler (Code f ! unat (IP f))"
  shows "exec h (Suc n) vm f = exec h n vm (f\<lparr>IP := IP f + 1\<rparr>)"
proof -
  have "Code f ! unat (IP f) \<notin> {0xB2, 0xB3, 0xB4, 0xB5, 0xB6, 0xB7, 0xB8, 0xBB}"
    using assms(2) by (auto simp: has_handler_def)
  from exec_no_ref[OF assms(1) this] exec_op_no_handler[OF assms(2)]
  show ?thesis by simp
qed

text \<open>
  C5, as claimed: IDIV (0x6C) or LDIV (0x6D) with a zero divisor on top of the stack ends
  the execution with a run-time error. It does not: ICONST_1; ICONST_0; IDIV; IRETURN
  returns the divisor 0 and no error.
\<close>

theorem IDIV_by_zero_counterexample:
  "exec no_files (Suc (Suc (Suc (Suc 0)))) (New []) (frame_of [0x04, 0x03, 0x6C, 0xAC]) =
     (Ok (VInt32 0), New [])"
  by (simp add: run_simps)

text \<open>
  C5, amended: the \<^verbatim>\<open>switch\<close> has no case for IDIV (0x6C) and LDIV (0x6D). Whatever is on
  the operand stack, a zero divisor included, the pass changes nothing but \<^verbatim>\<open>IP\<close>, which
  advances by one, and the execution continues with the next opcode.
\<close>

theorem IDIV_LDIV_skipped:
  assumes "unat (IP f) < length (Code f)"
    and "Code f ! unat (IP f) = 0x6C \<or> Code f ! unat (IP f) = 0x6D"
  shows "exec h (Suc n) vm f = exec h n vm (f\<lparr>IP := IP f + 1\<rparr>)"
proof -
  have "\<not> has_handler (Code f ! unat (IP f))"
    using assms(2) by (auto simp: has_handler_def)
  with assms(1) show ?thesis by (rule exec_no_handler)
qed

theorem IDIV_LDIV_skipped_witness:
  "exec no_files (Suc (Suc 0)) (New [])
     \<lparr>FrameClass = 0, IP = 2, Code = [0x04, 0x03, 0x6D, 0xAC], Locals = [],
      Stack = [VInt64 1, VInt64 0]\<rparr> = (Ok (VInt64 0), New [])"
  using IDIV_LDIV_skipped[of "\<lparr>FrameClass = 0, IP = 2, Code = [0x04, 0x03, 0x6D, 0xAC],
      Locals = [], Stack = [VInt64 1, VInt64 0]\<rparr>" no_files "Suc 0" "New []"]
  by (simp add: run_simps)

text \<open>
  C6, as claimed: fetching an opcode without a handler makes \<open>exec\<close> return an error. It
  does not: the code 0xFF; RETURN returns nil and no error.
\<close>

theorem unknown_opcode_counterexample:
  "exec no_files (Suc (Suc 0)) (New []) (frame_of [0xFF, 0xB1]) = (Ok VNil, New [])"
  by (simp add: run_simps)

text \<open>
  C6, amended: an opcode without a handler (a \<^verbatim>\<open>case\<close> with an empty body, or no \<^verbatim>\<open>case\<close> at
  all) is skipped: the pass changes nothing but \<^verbatim>\<open>IP\<close>, which advances by one, no error
  is returned and the execution continues with the next opcode.
\<close>

theorem unknown_opcode_skipped:
  assumes "unat (IP f) < length (Code f)" and "\<not> has_handler (Code f ! unat (IP f))"
  shows "exec h (Suc n) vm f = exec h n vm (f\<lparr>IP := IP f + 1\<rparr>)"
  using assms by (rule exec_no_handler)

theorem unknown_opcode_skipped_witness:
  "exec no_files (Suc (Suc 0)) (New []) (frame_of [0x57, 0xB1]) = (Ok VNil, New [])"
  using unknown_opcode_skipped[of "frame_of [0x57, 0xB1]" no_files "Suc 0" "New []"]
  by (simp add: run_simps has_handler_def)

subsection \<open>Method entry\<close>

lemma copy_args_overflow:
  "length locals < i + length as \<Longrightarrow> i \<le> length locals \<Longrightarrow>
   copy_args locals i as = Inl IndexOutOfRange"
  by (induction as arbitrary: locals i) auto

lemma copy_args_eq:
  "i + length as \<le> length locals \<Longrightarrow>
   copy_args locals i as = Inr (take i locals @ as @ drop (i + length as) locals)"
proof (induction as arbitrary: locals i)
  case Nil
  then show ?case by simp
next
  case (Cons a as)
  then have il: "i < length locals" by simp
  have "copy_args (locals[i := a]) (Suc i) as =
          Inr (take (Suc i) (locals[i := a]) @ as @ drop (Suc i + length as) (locals[i := a]))"
    using Cons.prems by (intro Cons.IH) simp
  then show ?case using il by (simp add: take_Suc_conv_app_nth)
qed

lemma new_frame_eq:
  "new_frame obj a args =
     (if unat (maxLocals a) < length args then Inl IndexOutOfRange
      else Inr \<lparr>FrameClass = obj, IP = 0, Code = drop 8 (Data a),
                Locals = args @ replicate (unat (maxLocals a) - length args) VNil,
                Stack = []\<rparr>)"
  by (simp add: new_frame_def copy_args_overflow copy_args_eq)

text \<open>
  The \<^verbatim>\<open>maxLocals\<close> of \<^verbatim>\<open>callMethod\<close> is the declared \<^verbatim>\<open>max_locals\<close>: the big-endian
  \<^verbatim>\<open>u2\<close> in bytes 2 and 3 of the attribute, after the \<^verbatim>\<open>u2 max_stack\<close>.
\<close>

lemma maxLocals_bytes:
  assumes "Data a = s1 # s0 # l1 # l0 # rest"
  shows "unat (maxLocals a) = 256 * unat l1 + unat l0"
proof -
  have b1: "unat l1 < 256" using unsigned_less[of l1] by simp
  have b0: "unat l0 < 256" using unsigned_less[of l0] by simp
  have eq: "maxLocals a = word_of_nat (unat l1 * 256 + unat l0)"
    using assms by (simp add: maxLocals_def be16_def numeral_2_eq_2)
  have lt: "unat l1 * 256 + unat l0 < 2 ^ 16" using b1 b0 by simp
  have "unat (word_of_nat (unat l1 * 256 + unat l0) :: 16 word) =
          (unat l1 * 256 + unat l0) mod 2 ^ 16"
    unfolding unat_of_nat by simp
  also have "\<dots> = unat l1 * 256 + unat l0" using lt by (rule mod_less)
  finally show ?thesis unfolding eq by simp
qed

text \<open>
  C10. A method whose first attribute named Code with more than 8 bytes is \<open>a\<close> (the
  attribute \<^verbatim>\<open>callMethod\<close> runs), \<open>a\<close> starting with the bytes \<open>s1 s0\<close> of \<^verbatim>\<open>max_stack\<close> and
  \<open>l1 l0\<close> of \<^verbatim>\<open>max_locals\<close>, so that the declared \<^verbatim>\<open>max_locals\<close> is \<open>256 * l1 + l0\<close>,
  called with the arguments \<open>args\<close>: with more arguments than the declared
  \<^verbatim>\<open>max_locals\<close> the copy into the locals indexes out of bounds, and the call panics (it
  does not return an error) whatever the fuel; with at most \<^verbatim>\<open>max_locals\<close> arguments the
  copy is in bounds and \<^verbatim>\<open>exec\<close> runs on the frame whose locals are the arguments in their
  order, argument \<open>i\<close> in slot \<open>i\<close>, followed by nil slots up to \<^verbatim>\<open>max_locals\<close>.
\<close>

theorem callMethod_copies_args:
  assumes "code_attr m = Some a" and "Data a = s1 # s0 # l1 # l0 # rest"
  shows "callMethod h n vm obj m args =
           (if 256 * unat l1 + unat l0 < length args then (Panic IndexOutOfRange, vm)
            else exec h n vm
                   \<lparr>FrameClass = obj, IP = 0, Code = drop 8 (Data a),
                    Locals = args @ replicate (256 * unat l1 + unat l0 - length args) VNil,
                    Stack = []\<rparr>) \<and>
         (\<forall>i < length args.
            (args @ replicate (256 * unat l1 + unat l0 - length args) VNil) ! i = args ! i)"
  using assms(1) maxLocals_bytes[OF assms(2)]
  by (simp add: callMethod_def callMethod_with_def new_frame_eq nth_append)

lemma example_method_code:
  "code_attr example_method =
     Some \<lparr>AName = ''Code'', Data = [0, 1, 0, 3, 0, 0, 0, 2, 0x1C, 0xAC, 0, 0, 0, 0]\<rparr>"
  by (simp add: code_attr_def example_method_def)

text \<open>
  The witness: \<^verbatim>\<open>third\<close> declares \<^verbatim>\<open>max_stack = 1\<close> and \<^verbatim>\<open>max_locals = 3\<close>; with three
  arguments it returns the one in slot 2, with four it panics.
\<close>

theorem callMethod_copies_args_witness:
  "callMethod no_files (Suc (Suc 0)) (New []) 0 example_method
     [VInt32 7, VInt32 9, VInt32 11] = (Ok (VInt32 11), New []) \<and>
   callMethod no_files (Suc (Suc 0)) (New []) 0 example_method
     [VInt32 7, VInt32 9, VInt32 11, VInt32 13] = (Panic IndexOutOfRange, New [])"
  using callMethod_copies_args[OF example_method_code,
          of 0 1 0 3 "[0, 0, 0, 2, 0x1C, 0xAC, 0, 0, 0, 0]"
             no_files "Suc (Suc 0)" "New []" 0 "[VInt32 7, VInt32 9, VInt32 11]"]
        callMethod_copies_args[OF example_method_code,
          of 0 1 0 3 "[0, 0, 0, 2, 0x1C, 0xAC, 0, 0, 0, 0]"
             no_files "Suc (Suc 0)" "New []" 0
             "[VInt32 7, VInt32 9, VInt32 11, VInt32 13]"]
  by (simp add: run_simps load_local_def)

subsection \<open>Method invocation\<close>

text \<open>
  C1. The claim: after INVOKEVIRTUAL, INVOKESPECIAL or INVOKESTATIC of a method with a
  non-void return type the return value is on top of the invoking frame's operand stack.
  The three handlers end with \<^verbatim>\<open>_ = res\<close>: the value is dropped. In the class \<^verbatim>\<open>T\<close> the code
  ICONST_0; INVOKESTATIC T.one:()I; IRETURN must return the 1 that \<^verbatim>\<open>one\<close> returns; it
  returns the 0 pushed before the call.
\<close>

theorem invoke_drops_result:
  "fst (exec no_files (Suc (Suc (Suc (Suc (Suc 0))))) vm_T
         \<lparr>FrameClass = 1, IP = 0, Code = [0x03, 0xB8, 0x00, 0x01, 0xAC], Locals = [],
          Stack = []\<rparr>) = Ok (VInt32 0)"
  by (simp add: run_simps call_simps vm_T_def class_T_def)

subsection \<open>The class registry\<close>

text \<open>Running \<^verbatim>\<open>exec\<close> and \<^verbatim>\<open>vm.Class\<close> only appends to the registry and to the store.\<close>

lemma ex_growsD: "ex_grows ex \<Longrightarrow> ex vm f = (r, vm') \<Longrightarrow> grows vm vm'"
  unfolding ex_grows_def by (metis snd_conv)

lemma cl_okD: "cl_ok cl \<Longrightarrow> cl vm name = (r, vm') \<Longrightarrow> grows vm vm'"
  unfolding cl_ok_def by (metis snd_conv)

lemma cl_ok_mem: "cl_ok cl \<Longrightarrow> cl vm name = (Ok c, vm') \<Longrightarrow> c \<in> set (Classes vm')"
  unfolding cl_ok_def by (metis fst_conv snd_conv)

lemma registry_ok_mono:
  "registry_ok vm \<Longrightarrow> set (Classes vm') \<subseteq> set (Classes vm) \<union> {a. a < length (Heap vm')} \<Longrightarrow>
   length (Heap vm) \<le> length (Heap vm') \<Longrightarrow> registry_ok vm'"
  by (fastforce simp: registry_ok_def list_all_iff)

lemma grows_refl: "grows vm vm"
  by (simp add: grows_def)

lemma grows_trans: "grows a b \<Longrightarrow> grows b c \<Longrightarrow> grows a c"
  unfolding grows_def by (elim conjE exE) (auto)

lemma grows_mem: "grows vm vm' \<Longrightarrow> c \<in> set (Classes vm) \<Longrightarrow> c \<in> set (Classes vm')"
  unfolding grows_def by auto

lemma SetField_grows: "SetField vm a name v = Inr vm' \<Longrightarrow> grows vm vm'"
  by (auto simp: SetField_def obj_at_def grows_def registry_ok_def nth_list_update
      split: sum.splits option.splits if_splits)

lemma Object_New_grows: "Object_New vm a = Inr (vm', b) \<Longrightarrow> grows vm vm'"
  by (auto simp: Object_New_def obj_at_def grows_def nth_append
      split: sum.splits option.splits if_splits intro: registry_ok_mono)

lemma register_class_grows: "register_class vm c s = (vm', a) \<Longrightarrow> grows vm vm'"
  by (auto simp: register_class_def grows_def nth_append intro: registry_ok_mono)

lemma register_class_new:
  "register_class vm c s = (vm', a) \<Longrightarrow>
   a \<in> set (Classes vm') \<and> a < length (Heap vm') \<and> ObjClass (Heap vm' ! a) = c"
  by (auto simp: register_class_def)

lemma field_op_grows: "field_op op vm c name f = Inr (vm', f') \<Longrightarrow> grows vm vm'"
  by (auto simp: field_op_def grows_refl split: if_splits sum.splits dest!: SetField_grows)

lemma callMethod_with_grows:
  assumes "ex_grows ex" and "callMethod_with ex vm obj m args = (r, vm')"
  shows "grows vm vm'"
  using assms(2)
  by (auto simp: callMethod_with_def grows_refl split: option.splits sum.splits
      dest!: ex_growsD[OF assms(1)])

lemma CallMethod_with_grows:
  assumes "ex_grows ex" and "CallMethod_with ex vm obj name desc args = (r, vm')"
  shows "grows vm vm'"
  using assms(2)
  by (auto simp: CallMethod_with_def grows_refl split: sum.splits
      dest!: callMethod_with_grows[OF assms(1)])

lemma invoke_pass_grows:
  assumes ex: "ex_grows ex" and "invoke_pass ex op vm c name desc f = (r, vm')"
  shows "grows vm vm'"
proof (cases "invoke_args op (argc desc) f")
  case (Inl p)
  with assms(2) show ?thesis by (simp add: invoke_pass_def grows_refl)
next
  case (Inr args)
  obtain r2 vm2 where c2: "CallMethod_with ex vm c name desc args = (r2, vm2)"
    by (cases "CallMethod_with ex vm c name desc args")
  have g2: "grows vm vm2" using CallMethod_with_grows[OF ex c2] .
  show ?thesis
  proof (cases r2)
    case (Ok res)
    with assms(2) Inr c2
    have "ex vm2 ((after_invoke (argc desc) res f)\<lparr>IP := IP f + 1\<rparr>) = (r, vm')"
      by (simp add: invoke_pass_def)
    from ex_growsD[OF ex this] g2 show ?thesis by (blast intro: grows_trans)
  qed (use assms(2) Inr c2 g2 in \<open>auto simp: invoke_pass_def\<close>)
qed

lemma ref_pass_grows:
  assumes ex: "ex_grows ex" and cl: "cl_ok cl" and "ref_pass ex cl op vm f = (r, vm')"
  shows "grows vm vm'"
proof (cases "ref_prologue vm f")
  case (Inl p)
  with assms(3) show ?thesis by (simp add: ref_pass_def grows_refl)
next
  case (Inr t)
  obtain f1 className name desc where t: "t = (f1, className, name, desc)" by (cases t)
  obtain rc vm1 where c1: "cl vm className = (rc, vm1)" by (cases "cl vm className")
  have g1: "grows vm vm1" using cl_okD[OF cl c1] .
  show ?thesis
  proof (cases rc)
    case (Ok c)
    show ?thesis
    proof (cases "op \<in> {0xB6, 0xB7, 0xB8}")
      case True
      with assms(3) Inr t c1 Ok have "invoke_pass ex op vm1 c name desc f1 = (r, vm')"
        by (simp add: ref_pass_def)
      from invoke_pass_grows[OF ex this] g1 show ?thesis by (blast intro: grows_trans)
    next
      case False
      show ?thesis
      proof (cases "field_op op vm1 c name f1")
        case (Inl p)
        with assms(3) Inr t c1 Ok False g1 show ?thesis by (simp add: ref_pass_def)
      next
        case u: (Inr u)
        obtain vm2 f2 where u2: "u = (vm2, f2)" by (cases u)
        have g2: "grows vm1 vm2" using field_op_grows u u2 by blast
        from assms(3) Inr t c1 Ok False u u2
        have "ex vm2 (f2\<lparr>IP := IP f2 + 1\<rparr>) = (r, vm')" by (simp add: ref_pass_def)
        from ex_growsD[OF ex this] g1 g2 show ?thesis by (blast intro: grows_trans)
      qed
    qed
  qed (use assms(3) Inr t c1 g1 in \<open>auto simp: ref_pass_def\<close>)
qed

lemma new_pass_grows:
  assumes ex: "ex_grows ex" and cl: "cl_ok cl" and "new_pass ex cl vm f = (r, vm')"
  shows "grows vm vm'"
proof (cases "new_prologue vm f")
  case (Inl p)
  with assms(3) show ?thesis by (simp add: new_pass_def grows_refl)
next
  case (Inr t)
  obtain f1 className where t: "t = (f1, className)" by (cases t)
  obtain rc vm1 where c1: "cl vm className = (rc, vm1)" by (cases "cl vm className")
  have g1: "grows vm vm1" using cl_okD[OF cl c1] .
  show ?thesis
  proof (cases rc)
    case (Ok c)
    show ?thesis
    proof (cases "Object_New vm1 c")
      case (Inl p)
      with assms(3) Inr t c1 Ok g1 show ?thesis by (simp add: new_pass_def)
    next
      case u: (Inr u)
      obtain vm2 a where u2: "u = (vm2, a)" by (cases u)
      have g2: "grows vm1 vm2" using Object_New_grows u u2 by blast
      from assms(3) Inr t c1 Ok u u2
      have "ex vm2 ((push f1 (VObject a))\<lparr>IP := IP f1 + 1\<rparr>) = (r, vm')"
        by (simp add: new_pass_def)
      from ex_growsD[OF ex this] g1 g2 show ?thesis by (blast intro: grows_trans)
    qed
  qed (use assms(3) Inr t c1 g1 in \<open>auto simp: new_pass_def\<close>)
qed

lemma exec_pass_grows:
  assumes ex: "ex_grows ex" and cl: "cl_ok cl"
  shows "ex_grows (exec_pass h ex cl)"
  unfolding ex_grows_def
proof (intro allI)
  fix vm f
  obtain r vm' where e: "exec_pass h ex cl vm f = (r, vm')" by (cases "exec_pass h ex cl vm f")
  have "grows vm vm'"
    using e
    by (auto simp: exec_pass_def Let_def grows_refl split: if_splits step.splits
        dest!: ref_pass_grows[OF ex cl] new_pass_grows[OF ex cl] ex_growsD[OF ex])
  with e show "grows vm (snd (exec_pass h ex cl vm f))" by simp
qed

lemma resolve_super_grows:
  assumes cl: "cl_ok cl" and "resolve_super cl vm c = (r, vm')"
  shows "grows vm vm'"
  using assms(2)
  by (auto simp: resolve_super_def grows_refl split: if_splits prod.splits result.splits
      dest!: cl_okD[OF cl])

lemma run_clinit_ok:
  assumes ex: "ex_grows ex" and "run_clinit ex vm a = (r, vm')"
  shows "grows vm vm' \<and> (\<forall>c. r = Ok c \<longrightarrow> c = a)"
  using assms(2)
  by (auto simp: run_clinit_def grows_refl split: sum.splits prod.splits result.splits
      dest!: callMethod_with_grows[OF ex])

lemma scan_classes_mem: "scan_classes vm name cs = Inr (Some c) \<Longrightarrow> c \<in> set cs"
  by (induction cs) (auto split: sum.splits if_splits)

lemma Class_with_ok:
  assumes ex: "ex_grows ex" and cl: "cl_ok cl"
  shows "cl_ok (Class_with h cl ex)"
  unfolding cl_ok_def
proof (intro allI)
  fix vm name
  obtain r vm' where e: "Class_with h cl ex vm name = (r, vm')"
    by (cases "Class_with h cl ex vm name")
  have "grows vm vm' \<and> (\<forall>c. r = Ok c \<longrightarrow> c \<in> set (Classes vm'))"
  proof (cases "scan_classes vm name (Classes vm)")
    case (Inl p)
    with e show ?thesis by (auto simp: Class_with_def grows_refl)
  next
    case (Inr found)
    show ?thesis
    proof (cases found)
      case (Some c)
      with e Inr show ?thesis by (auto simp: Class_with_def grows_refl dest: scan_classes_mem)
    next
      case None
      show ?thesis
      proof (cases "load_first h name (ClassPath vm)")
        case (Inl p)
        with e Inr None show ?thesis by (auto simp: Class_with_def grows_refl)
      next
        case l: (Inr loaded)
        show ?thesis
        proof (cases loaded)
          case n: None
          with e Inr None l show ?thesis by (auto simp: Class_with_def grows_refl)
        next
          case s: (Some c)
          obtain rs vm1 where rs: "resolve_super cl vm c = (rs, vm1)"
            by (cases "resolve_super cl vm c")
          have g1: "grows vm vm1" using resolve_super_grows[OF cl rs] .
          show ?thesis
          proof (cases rs)
            case (Ok super)
            obtain vm2 a where reg: "register_class vm1 c super = (vm2, a)"
              by (cases "register_class vm1 c super")
            have g2: "grows vm1 vm2" using register_class_grows[OF reg] .
            have m2: "a \<in> set (Classes vm2)" using register_class_new[OF reg] by simp
            from e Inr None l s rs Ok reg have rc: "run_clinit ex vm2 a = (r, vm')"
              by (simp add: Class_with_def)
            from run_clinit_ok[OF ex rc] have g3: "grows vm2 vm'" and ra: "\<forall>c. r = Ok c \<longrightarrow> c = a"
              by simp_all
            have "grows vm vm'" using g1 g2 g3 by (blast intro: grows_trans)
            moreover have "a \<in> set (Classes vm')" using grows_mem[OF g3 m2] .
            ultimately show ?thesis using ra by auto
          qed (use e Inr None l s rs g1 in \<open>auto simp: Class_with_def\<close>)
        qed
      qed
    qed
  qed
  with e show "grows vm (snd (Class_with h cl ex vm name)) \<and>
       (\<forall>c. fst (Class_with h cl ex vm name) = Ok c \<longrightarrow>
            c \<in> set (Classes (snd (Class_with h cl ex vm name))))" by simp
qed

lemma exec_Class_ok: "ex_grows (exec h n) \<and> cl_ok (VM_Class h n)"
proof (induction n)
  case 0
  show ?case by (simp add: ex_grows_def cl_ok_def exec_def VM_Class_def grows_refl)
next
  case (Suc n)
  then have ex: "ex_grows (exec h n)" and cl: "cl_ok (VM_Class h n)" by simp_all
  have "exec h (Suc n) = exec_pass h (exec h n) (VM_Class h n)"
    by (simp add: exec_def VM_Class_def)
  moreover have "VM_Class h (Suc n) = Class_with h (VM_Class h n) (exec h n)"
    by (simp add: exec_def VM_Class_def)
  ultimately show ?case using exec_pass_grows[OF ex cl] Class_with_ok[OF ex cl] by simp
qed

lemma scan_classes_finds:
  assumes "list_all (\<lambda>c. c < length (Heap vm)) cs" and "c \<in> set cs"
    and "Name (ObjClass (Heap vm ! c)) = name"
  shows "\<exists>c'. scan_classes vm name cs = Inr (Some c') \<and> Name (ObjClass (Heap vm ! c')) = name"
  using assms by (induction cs) (auto simp: obj_at_def)

text \<open>Loading the two class files, and the runs of \<^verbatim>\<open>vm.Class\<close> on them.\<close>

lemmas load_simps = Load_def u1_def u2_def u4_def u8_def bytes_def ReadFull_def be16_def be32_def
  be64_def cpinfo_def cpinfo_loop.simps read_const_def Const_of_Tag_def tag_defs
  string_of_bytes_def char_of_def bit_Suc_0_iff Resolve_def interfaces_def loader_fields_def
  attrs_def Let_def Utf8_def

lemma Load_A: "Load A_class = Inr (class_A, None)"
  by (simp add: load_simps A_class_def class_A_def)

lemma Load_B: "Load B_class = Inr (class_B, None)"
  by (simp add: load_simps B_class_def class_B_def)

lemma open_ab:
  "open_class ab_host ''cp'' ''A'' = Some A_class"
  "open_class ab_host ''cp'' ''Alias'' = Some A_class"
  "open_class ab_host ''cp'' ''B'' = Some B_class"
  by (simp_all add: ab_host_def)

lemma class_A_sel:
  "Name class_A = ''A''" "Super class_A = ''B''" "Methods class_A = []"
  by (simp_all add: class_A_def)

lemma class_B_sel:
  "Name class_B = ''B''" "Super class_B = ''java/lang/Object''"
  "Methods class_B = [\<lparr>FFlags = 8, FName = ''<clinit>'', Descriptor = ''()V'',
          FAttributes =
            [\<lparr>AName = ''Code'',
              Data = [0, 1, 0, 0, 0, 0, 0, 4, 0xBB, 0x00, 0x09, 0xB1, 0, 0, 0, 0]\<rparr>]\<rparr>]"
  "ConstPool class_B = [Utf8 ''B'', (Const_of_Tag TagClass)\<lparr>NameIndex := 1\<rparr>,
                   Utf8 ''java/lang/Object'', (Const_of_Tag TagClass)\<lparr>NameIndex := 3\<rparr>,
                   Utf8 ''<clinit>'', Utf8 ''()V'', Utf8 ''Code'',
                   Utf8 ''A'', (Const_of_Tag TagClass)\<lparr>NameIndex := 8\<rparr>]"
  by (simp_all add: class_B_def)

lemmas reg_simps = run_simps call_simps open_ab Load_A Load_B class_A_sel class_B_sel
  class_object_def instance_of_def

lemma first_A:
  "VM_Class ab_host (Suc (Suc (Suc (Suc (Suc 0))))) (New [''cp'']) ''A'' = (Ok 4, vm_AB)"
  by (simp add: reg_simps vm_AB_def)

lemma second_A: "VM_Class ab_host (Suc 0) vm_AB ''A'' = (Ok 2, vm_AB)"
  by (simp add: reg_simps vm_AB_def)

lemma first_Alias:
  "VM_Class ab_host (Suc (Suc (Suc (Suc (Suc 0))))) (New [''cp'']) ''Alias'' = (Ok 4, vm_AB)"
  by (simp add: reg_simps vm_AB_def)

lemma second_Alias:
  "fst (VM_Class ab_host (Suc (Suc (Suc (Suc (Suc 0))))) vm_AB ''Alias'') = Ok 5"
  by (simp add: reg_simps vm_AB_def)

lemma vm_AB_registry:
  "Classes vm_AB = [0, 1, 2, 4] \<and> Name (ObjClass (Heap vm_AB ! 2)) = ''A'' \<and>
   Name (ObjClass (Heap vm_AB ! 4)) = ''A''"
  by (simp add: vm_AB_def New_def class_object_def class_A_sel)

lemma first_B:
  "VM_Class ab_host (Suc (Suc (Suc (Suc 0)))) (New [''cp'']) ''B'' = (Ok 1, vm_B)"
  by (simp add: reg_simps vm_B_def)

text \<open>
  C7, as claimed: when the first resolution of a class name succeeds, a second lookup
  returns the identical class object, no duplicate registry entry is created and
  \<^verbatim>\<open><clinit>\<close> does not run again. Two runs against it, from a fresh VM on \<open>ab_host\<close>.
  The first resolution of \<^verbatim>\<open>A\<close> resolves the super class \<^verbatim>\<open>B\<close>, whose \<^verbatim>\<open><clinit>\<close> resolves
  \<^verbatim>\<open>A\<close> again and registers it (object 2) before the outer call registers \<^verbatim>\<open>A\<close> a second
  time (object 4) and returns it: the registry has two entries named \<^verbatim>\<open>A\<close>, and the second
  lookup returns object 2, not object 4. The first resolution of \<^verbatim>\<open>Alias\<close> loads a file
  that declares \<^verbatim>\<open>A\<close>, so no entry is named \<^verbatim>\<open>Alias\<close>: the second lookup loads the file
  again and returns a new object 5.
\<close>

theorem class_twice_counterexample:
  "VM_Class ab_host (Suc (Suc (Suc (Suc (Suc 0))))) (New [''cp'']) ''A'' = (Ok 4, vm_AB) \<and>
   VM_Class ab_host (Suc 0) vm_AB ''A'' = (Ok 2, vm_AB) \<and>
   Classes vm_AB = [0, 1, 2, 4] \<and>
   Name (ObjClass (Heap vm_AB ! 2)) = ''A'' \<and> Name (ObjClass (Heap vm_AB ! 4)) = ''A'' \<and>
   VM_Class ab_host (Suc (Suc (Suc (Suc (Suc 0))))) (New [''cp'']) ''Alias'' = (Ok 4, vm_AB) \<and>
   fst (VM_Class ab_host (Suc (Suc (Suc (Suc (Suc 0))))) vm_AB ''Alias'') = Ok 5"
  using first_A second_A first_Alias second_Alias vm_AB_registry by simp

lemma scan_classes_named:
  "scan_classes vm name cs = Inr (Some c) \<Longrightarrow> Name (ObjClass (Heap vm ! c)) = name"
  by (induction cs) (auto simp: obj_at_def split: sum.splits if_splits)

text \<open>
  C7, amended: in a VM whose registry is sound, when the first resolution of the name
  \<open>n\<close> succeeds with a class object that itself has the name \<open>n\<close>, every later lookup of
  \<open>n\<close> (with any fuel but none) is a registry hit: it returns the first registered
  class object named \<open>n\<close> and leaves the VM as it is, so it adds no registry entry and
  runs no \<^verbatim>\<open><clinit>\<close>. When the object the first resolution returned is the only
  registered class object named \<open>n\<close>, the later lookup returns this identical object.
\<close>

theorem class_lookup_again:
  assumes "registry_ok vm" and "VM_Class h k vm n = (Ok c, vm')"
    and "Name (ObjClass (Heap vm' ! c)) = n"
  shows "(\<exists>c'. scan_classes vm' n (Classes vm') = Inr (Some c') \<and>
               VM_Class h (Suc j) vm' n = (Ok c', vm')) \<and>
         (filter (\<lambda>a. Name (ObjClass (Heap vm' ! a)) = n) (Classes vm') = [c] \<longrightarrow>
            VM_Class h (Suc j) vm' n = (Ok c, vm'))"
proof -
  have cl: "cl_ok (VM_Class h k)" using exec_Class_ok by simp
  have g: "grows vm vm'" using cl_okD[OF cl assms(2)] .
  have ok: "registry_ok vm'" using g assms(1) by (simp add: grows_def)
  have mem: "c \<in> set (Classes vm')" using cl_ok_mem[OF cl assms(2)] .
  from scan_classes_finds[OF ok[unfolded registry_ok_def] mem assms(3)]
  obtain c' where c': "scan_classes vm' n (Classes vm') = Inr (Some c')" by blast
  then have hit: "VM_Class h (Suc j) vm' n = (Ok c', vm')"
    by (simp add: VM_Class_Suc Class_with_def)
  have "c' = c" if u: "filter (\<lambda>a. Name (ObjClass (Heap vm' ! a)) = n) (Classes vm') = [c]"
  proof -
    have "c' \<in> set (filter (\<lambda>a. Name (ObjClass (Heap vm' ! a)) = n) (Classes vm'))"
      using scan_classes_mem[OF c'] scan_classes_named[OF c'] by simp
    with u show ?thesis by simp
  qed
  with c' hit show ?thesis by auto
qed

text \<open>
  The witness: the first resolution of \<^verbatim>\<open>B\<close> returns object 1, which is the only
  registered class object named \<^verbatim>\<open>B\<close>; the second lookup returns object 1 and leaves the
  VM as it is.
\<close>

theorem class_lookup_again_witness:
  "registry_ok (New [''cp'']) \<and>
   VM_Class ab_host (Suc (Suc (Suc (Suc 0)))) (New [''cp'']) ''B'' = (Ok 1, vm_B) \<and>
   Name (ObjClass (Heap vm_B ! 1)) = ''B'' \<and>
   filter (\<lambda>a. Name (ObjClass (Heap vm_B ! a)) = ''B'') (Classes vm_B) = [1] \<and>
   VM_Class ab_host (Suc 0) vm_B ''B'' = (Ok 1, vm_B)"
proof -
  have r: "registry_ok (New [''cp''])" by (simp add: registry_ok_def New_def)
  have nm: "Name (ObjClass (Heap vm_B ! 1)) = ''B''"
    by (simp add: vm_B_def New_def class_object_def class_B_sel)
  have u: "filter (\<lambda>a. Name (ObjClass (Heap vm_B ! a)) = ''B'') (Classes vm_B) = [1]"
    by (simp add: vm_B_def New_def class_object_def instance_of_def class_A_sel class_B_sel)
  from class_lookup_again[OF r first_B nm, of 0] u
  have "VM_Class ab_host (Suc 0) vm_B ''B'' = (Ok 1, vm_B)" by blast
  with r first_B nm u show ?thesis by simp
qed

text \<open>
  The same from the inputs alone: when \<open>n\<close> is not registered, the class file found for
  \<open>n\<close> declares \<open>n\<close> and its super class is absent or already registered, a successful
  first resolution returns the new class object, which is then the first one named \<open>n\<close>
  (whatever its \<^verbatim>\<open><clinit>\<close> did), and every later lookup returns this identical object
  and leaves the VM as it is.
\<close>

lemma scan_classes_miss:
  "scan_classes vm name cs = Inr None \<Longrightarrow>
   list_all (\<lambda>a. a < length (Heap vm) \<and> Name (ObjClass (Heap vm ! a)) \<noteq> name) cs"
  by (induction cs) (auto simp: obj_at_def split: sum.splits if_splits)

lemma scan_classes_append_first:
  assumes "list_all (\<lambda>a. a < length (Heap vm) \<and> Name (ObjClass (Heap vm ! a)) \<noteq> name) cs"
    and "c < length (Heap vm)" and "Name (ObjClass (Heap vm ! c)) = name"
  shows "scan_classes vm name (cs @ c # ds) = Inr (Some c)"
  using assms by (induction cs) (auto simp: obj_at_def)

lemma class_lookup_fresh:
  assumes ok: "registry_ok vm"
    and miss: "scan_classes vm n (Classes vm) = Inr None"
    and load: "load_first h n (ClassPath vm) = Inr (Some cls)"
    and name: "Name cls = n"
    and super: "Super cls = [] \<or> (\<exists>s. scan_classes vm (Super cls) (Classes vm) = Inr (Some s))"
    and first: "VM_Class h (Suc k) vm n = (Ok c, vm')"
  shows "c = length (Heap vm) \<and> scan_classes vm' n (Classes vm') = Inr (Some c) \<and>
         VM_Class h (Suc j) vm' n = (Ok c, vm')"
proof -
  have ex: "ex_grows (exec h k)" and cl: "cl_ok (VM_Class h k)" using exec_Class_ok by simp_all
  obtain rs vm1 where rs: "resolve_super (VM_Class h k) vm cls = (rs, vm1)"
    by (cases "resolve_super (VM_Class h k) vm cls")
  from first miss load rs obtain sup where sup: "rs = Ok sup"
    by (cases rs) (auto simp: VM_Class_Suc Class_with_def)
  have vm1: "vm1 = vm"
  proof (cases "Super cls = []")
    case True
    with rs show ?thesis by (simp add: resolve_super_def)
  next
    case False
    with super obtain s where s: "scan_classes vm (Super cls) (Classes vm) = Inr (Some s)" by blast
    show ?thesis
    proof (cases k)
      case 0
      with rs False sup show ?thesis by (simp add: resolve_super_def VM_Class_0)
    next
      case (Suc k')
      with rs False s show ?thesis
        by (auto simp: resolve_super_def VM_Class_Suc Class_with_def)
    qed
  qed
  obtain vm2 a where reg: "register_class vm cls sup = (vm2, a)"
    by (cases "register_class vm cls sup")
  from first miss load rs sup vm1 reg have rc: "run_clinit (exec h k) vm2 a = (Ok c, vm')"
    by (simp add: VM_Class_Suc Class_with_def)
  from run_clinit_ok[OF ex rc] have g3: "grows vm2 vm'" and ca: "c = a" by simp_all
  have a: "a = length (Heap vm)" and cls2: "Classes vm2 = Classes vm @ [a]"
    and h2: "length (Heap vm2) = Suc (length (Heap vm))"
    and o2: "ObjClass (Heap vm2 ! a) = cls"
    and old2: "\<forall>b < length (Heap vm). ObjClass (Heap vm2 ! b) = ObjClass (Heap vm ! b)"
    using reg by (auto simp: register_class_def nth_append)
  from g3 obtain ds where ds: "Classes vm' = Classes vm2 @ ds" by (auto simp: grows_def)
  have keep: "\<forall>b < length (Heap vm2). ObjClass (Heap vm' ! b) = ObjClass (Heap vm2 ! b)"
    and len: "length (Heap vm2) \<le> length (Heap vm')"
    using g3 by (auto simp: grows_def)
  have old: "list_all (\<lambda>b. b < length (Heap vm') \<and> Name (ObjClass (Heap vm' ! b)) \<noteq> n) (Classes vm)"
    using scan_classes_miss[OF miss] keep old2 h2 len
    by (auto simp: list_all_iff)
  have "scan_classes vm' n (Classes vm @ a # ds) = Inr (Some a)"
    using old keep o2 name h2 len a by (intro scan_classes_append_first) auto
  then have sc: "scan_classes vm' n (Classes vm') = Inr (Some c)"
    using ds cls2 ca by simp
  then have "VM_Class h (Suc j) vm' n = (Ok c, vm')"
    by (simp add: VM_Class_Suc Class_with_def)
  with sc ca a show ?thesis by simp
qed


end
